theory Spec2Isabelle
  imports Complex_Main "HOL-Library.Char_ord" "HOL-Library.List_Lexorder"
    "HOL-Library.Sublist" "HOL-Library.Multiset"
begin

section \<open>TravelTracker: the map/selection synchronisation layer\<close>

text \<open>
  The development embeds the React component \<^verbatim>\<open>App\<close> of \<^verbatim>\<open>src/src/App.tsx\<close>
  (two scopes, world and USA).  React state cells become the fields of a record
  that every handler takes and returns; a thrown exception becomes the left
  summand of a sum type.  A handler that awaits a fetch is split at the await:
  one function runs it up to the fetch, another runs the rest once the response
  is there, and other handlers may run in between.  A later section embeds the
  parts of the four-scope revision of the same component (first file of
  \<^verbatim>\<open>src/unnamed/part_001\<close>) that differ.

  Conventions.  A JavaScript \<^verbatim>\<open>Set<string>\<close> is a HOL set: the component
  only tests membership and reads the size.  A JavaScript string is a
  \<^typ>\<open>string\<close>, each character standing for the code unit of the same number;
  strings with a code unit above 255 are outside the model.  The empty string
  also stands for a missing name, since the code only tests names for
  truthiness.
\<close>

subsection \<open>Data model\<close>

datatype Scope = World | Usa

datatype NotificationType = Success | Error

text \<open>\<^verbatim>\<open>GeoFeature\<close>: the component reads only \<^verbatim>\<open>properties.name\<close>; the
  geometry is consumed by the d3 path generator alone.\<close>

record GeoFeature =
  name :: string

text \<open>A feature as a GeoJSON document delivers it, with what the loaders
  test: whether \<^verbatim>\<open>properties\<close> is present, its members \<^verbatim>\<open>name\<close> and
  \<^verbatim>\<open>NAME\<close> (empty when absent), and the type of the geometry (empty when the
  geometry is absent).\<close>

record RawFeature =
  hasProperties :: bool
  rawName :: string
  rawNAME :: string
  geometryType :: string

text \<open>What \<^verbatim>\<open>d3.json\<close> delivers: the promise rejects (network failure, bad status,
  unparsable body), resolves to \<^verbatim>\<open>undefined\<close>, or resolves to a parsed document.\<close>

datatype 'd response = Rejected | Undefined | Document 'd

datatype error = FetchRejected | NoData | TypeError | ObjectNotFound | ConversionFailed

text \<open>A GeoJSON document; \<^verbatim>\<open>features\<close> is absent in a malformed one.\<close>

record FeatureCollection =
  features :: "RawFeature list option"

text \<open>A TopoJSON document: its \<^verbatim>\<open>objects\<close> by key.  \<^verbatim>\<open>feature\<close> of
  topojson-client turns a geometry collection into a feature collection and any
  other geometry into a single feature, and fails on \<^verbatim>\<open>undefined\<close>.  It gives
  every feature a \<^verbatim>\<open>properties\<close> object, so a feature from a topology is
  described by its name alone.\<close>

datatype topo_object = GeometryCollection "GeoFeature list" | Geometry GeoFeature

record Topology =
  objects :: "(string \<times> topo_object) list"

datatype geojson = FeatureCollectionOf "GeoFeature list" | FeatureOf GeoFeature

definition feature :: "topo_object option \<Rightarrow> error + geojson" where
  "feature o_opt = (case o_opt of
       None \<Rightarrow> Inl TypeError
     | Some (GeometryCollection gs) \<Rightarrow> Inr (FeatureCollectionOf gs)
     | Some (Geometry g) \<Rightarrow> Inr (FeatureOf g))"

record AppState =
  currentScope :: Scope
  activeLocations :: "string set"
  isLoading :: bool
  searchQuery :: string
  worldCountryFeatures :: "GeoFeature list"
  usStateFeatures :: "GeoFeature list"
  notifications :: "(string \<times> NotificationType) list"

text \<open>The state of the first render (lines 34--40), with an empty notification
  container.\<close>

definition initialState :: AppState where
  "initialState = \<lparr>currentScope = World, activeLocations = {}, isLoading = True,
     searchQuery = [], worldCountryFeatures = [], usStateFeatures = [],
     notifications = []\<rparr>"

subsection \<open>Computed values (lines 55--70)\<close>

definition currentFeatures :: "AppState \<Rightarrow> GeoFeature list" where
  "currentFeatures st =
     (if currentScope st = World then worldCountryFeatures st else usStateFeatures st)"

definition locationsCount :: "AppState \<Rightarrow> nat" where
  "locationsCount st = card (activeLocations st)"

definition totalReference :: "AppState \<Rightarrow> nat" where
  "totalReference st =
     (if currentScope st = World then length (worldCountryFeatures st)
      else length (usStateFeatures st))"

text \<open>\<^verbatim>\<open>Number.prototype.toFixed(1)\<close> on a non-negative number: the integer \<open>n\<close>
  of tenths nearest to the number, the larger one on a tie, printed as the
  decimal digits of \<open>n div 10\<close>, a point, and the digit \<open>n mod 10\<close>.  Numbers are
  exact rationals here; the rounding of the double-precision quotient is not
  modelled.\<close>

definition digit_char :: "nat \<Rightarrow> char" where
  "digit_char d = ''0123456789'' ! d"

fun show_nat :: "nat \<Rightarrow> string" where
  "show_nat n =
     (if n < 10 then [digit_char n] else show_nat (n div 10) @ [digit_char (n mod 10)])"

definition tenths :: "rat \<Rightarrow> nat" where
  "tenths v = nat \<lfloor>v * 10 + 1 / 2\<rfloor>"

definition toFixed1 :: "rat \<Rightarrow> string" where
  "toFixed1 v = show_nat (tenths v div 10) @ ''.'' @ show_nat (tenths v mod 10)"

definition percentage :: "AppState \<Rightarrow> string" where
  "percentage st =
     (if totalReference st > 0
      then toFixed1 ((of_nat (locationsCount st) / of_nat (totalReference st)) * 100)
      else ''0.0'')"

subsection \<open>Notifications (lines 73--98)\<close>

text \<open>The notification is prepended to the container, which the component
  itself renders; its timed removal is not modelled, so the field records every
  notification shown so far, newest first.\<close>

definition showNotification :: "string \<Rightarrow> NotificationType \<Rightarrow> AppState \<Rightarrow> AppState" where
  "showNotification message type st =
     st\<lparr>notifications := (message, type) # notifications st\<rparr>"

subsection \<open>Loading region data (lines 101--153)\<close>

text \<open>The body of the \<^verbatim>\<open>try\<close> block of \<^verbatim>\<open>loadWorldData\<close>: the features that
  would be committed, or the exception thrown.  The filter reads
  \<^verbatim>\<open>d.properties.name\<close> of every feature, which throws on a feature without
  properties.\<close>

definition loadWorldData_try :: "FeatureCollection response \<Rightarrow> error + GeoFeature list" where
  "loadWorldData_try resp = (case resp of
       Rejected \<Rightarrow> Inl FetchRejected
     | Undefined \<Rightarrow> Inl NoData
     | Document geoJsonData \<Rightarrow> (case features geoJsonData of
           None \<Rightarrow> Inl TypeError
         | Some gs \<Rightarrow>
             if list_all hasProperties gs
             then Inr (map (\<lambda>d. \<lparr>name = rawName d\<rparr>)
                    (filter (\<lambda>d. rawName d \<noteq> [] \<and> rawName d \<noteq> ''Antarctica'') gs))
             else Inl TypeError))"

text \<open>The \<^verbatim>\<open>catch\<close> block logs to the console and throws the error again.\<close>

definition loadWorldData :: "FeatureCollection response \<Rightarrow> AppState \<Rightarrow> error + AppState" where
  "loadWorldData resp st = (case loadWorldData_try resp of
       Inr fs \<Rightarrow> Inr (st\<lparr>worldCountryFeatures := fs\<rparr>)
     | Inl e \<Rightarrow> Inl e)"

definition usStates :: "string list" where
  "usStates = [
     ''Alabama'', ''Alaska'', ''Arizona'', ''Arkansas'', ''California'', ''Colorado'', ''Connecticut'',
     ''Delaware'', ''Florida'', ''Georgia'', ''Hawaii'', ''Idaho'', ''Illinois'', ''Indiana'', ''Iowa'',
     ''Kansas'', ''Kentucky'', ''Louisiana'', ''Maine'', ''Maryland'', ''Massachusetts'', ''Michigan'',
     ''Minnesota'', ''Mississippi'', ''Missouri'', ''Montana'', ''Nebraska'', ''Nevada'', ''New Hampshire'',
     ''New Jersey'', ''New Mexico'', ''New York'', ''North Carolina'', ''North Dakota'', ''Ohio'',
     ''Oklahoma'', ''Oregon'', ''Pennsylvania'', ''Rhode Island'', ''South Carolina'', ''South Dakota'',
     ''Tennessee'', ''Texas'', ''Utah'', ''Vermont'', ''Virginia'', ''Washington'', ''West Virginia'',
     ''Wisconsin'', ''Wyoming'']"

definition loadUSAData_try :: "Topology response \<Rightarrow> error + GeoFeature list" where
  "loadUSAData_try resp = (case resp of
       Rejected \<Rightarrow> Inl FetchRejected
     | Undefined \<Rightarrow> Inl NoData
     | Document topoData \<Rightarrow> (case feature (map_of (objects topoData) ''states'') of
           Inl e \<Rightarrow> Inl e
         | Inr featureCollection \<Rightarrow>
             (let fs = (case featureCollection of
                          FeatureCollectionOf gs \<Rightarrow> gs
                        | FeatureOf g \<Rightarrow> [g])
              in Inr (filter (\<lambda>d. name d \<noteq> [] \<and> name d \<in> set usStates) fs))))"

text \<open>The part of \<^verbatim>\<open>loadUSAData\<close> after its guard: the \<^verbatim>\<open>catch\<close> block
  notifies, empties the collection and does not throw again.\<close>

definition loadUSAData_body :: "Topology response \<Rightarrow> AppState \<Rightarrow> error + AppState" where
  "loadUSAData_body resp st = (case loadUSAData_try resp of
       Inr filteredFeatures \<Rightarrow> Inr (st\<lparr>usStateFeatures := filteredFeatures\<rparr>)
     | Inl e \<Rightarrow> Inr ((showNotification
           ''Failed to load US states map data. Check the console.'' Error st)
           \<lparr>usStateFeatures := []\<rparr>))"

text \<open>How far a handler gets before the next handler may run: to its end, or
  to a fetch that it awaits.\<close>

datatype 's outcome = Finished 's | Suspended 's

text \<open>The guard of \<^verbatim>\<open>loadUSAData\<close> (line 118): with the collection loaded
  the loader returns at once, otherwise it starts the fetch.\<close>

definition loadUSAData_begin :: "AppState \<Rightarrow> AppState outcome" where
  "loadUSAData_begin st =
     (if length (usStateFeatures st) > 0 then Finished st else Suspended st)"

text \<open>\<^verbatim>\<open>initialize\<close> (lines 667--707), as far as the state cells go: the error of
  \<^verbatim>\<open>loadWorldData\<close> is caught and logged, and \<^verbatim>\<open>finally\<close> ends the loading
  state.\<close>

definition initialize :: "FeatureCollection response \<Rightarrow> AppState \<Rightarrow> AppState" where
  "initialize resp st =
     (let st1 = st\<lparr>isLoading := True\<rparr> in
      (case loadWorldData resp st1 of
         Inr st2 \<Rightarrow> st2\<lparr>isLoading := False\<rparr>
       | Inl e \<Rightarrow> st1\<lparr>isLoading := False\<rparr>))"

subsection \<open>The Selection Store (lines 277--344, 390--405, 957--1003)\<close>

text \<open>The updater that \<^verbatim>\<open>handleLocationToggle\<close> passes to
  \<^verbatim>\<open>setActiveLocations\<close>.\<close>

definition toggle :: "string \<Rightarrow> string set \<Rightarrow> string set" where
  "toggle locationName prev =
     (if locationName \<in> prev then prev - {locationName} else insert locationName prev)"

definition handleLocationToggle :: "string \<Rightarrow> AppState \<Rightarrow> AppState" where
  "handleLocationToggle locationName st =
     st\<lparr>activeLocations := toggle locationName (activeLocations st)\<rparr>"

text \<open>The handler of the select-all button (lines 957--1003), as far as the
  state goes.\<close>

definition allLocationNames :: "GeoFeature list \<Rightarrow> string list" where
  "allLocationNames fs = filter (\<lambda>n. n \<noteq> []) (map name fs)"

definition selectAllClick :: "AppState \<Rightarrow> AppState" where
  "selectAllClick st =
     (let names = allLocationNames (currentFeatures st) in
      if card (activeLocations st) = length names
      then st\<lparr>activeLocations := {}\<rparr>
      else st\<lparr>activeLocations := set names\<rparr>)"

text \<open>\<^verbatim>\<open>handleScopeSelection\<close> (lines 390--405) up to its await, and from its
  await on.  The first part returns when the scope is the current one;
  otherwise it empties the store and, for the USA scope, calls the loader, which
  either returns at its guard, so that the handler runs to its end, or starts
  the fetch.  The second part is the rest of the loader, with the response, and
  then the rest of the handler.\<close>

definition handleScopeSelection_begin :: "Scope \<Rightarrow> AppState \<Rightarrow> AppState outcome" where
  "handleScopeSelection_begin scope st =
     (if scope = currentScope st then Finished st
      else
        (let st1 = st\<lparr>activeLocations := {}\<rparr> in
         if scope = Usa
         then (case loadUSAData_begin (st1\<lparr>isLoading := True\<rparr>) of
                 Finished st2 \<Rightarrow> Finished (st2\<lparr>isLoading := False, currentScope := scope\<rparr>)
               | Suspended st2 \<Rightarrow> Suspended st2)
         else Finished (st1\<lparr>currentScope := scope\<rparr>)))"

definition handleScopeSelection_resume ::
  "Scope \<Rightarrow> Topology response \<Rightarrow> AppState \<Rightarrow> error + AppState" where
  "handleScopeSelection_resume scope resp st =
     (case loadUSAData_body resp st of
        Inl e \<Rightarrow> Inl e
      | Inr st2 \<Rightarrow> Inr (st2\<lparr>isLoading := False, currentScope := scope\<rparr>))"

subsection \<open>Sessions\<close>

text \<open>
  A session is the state of the component together with the calls of
  \<^verbatim>\<open>handleScopeSelection\<close> that wait for their fetch, each with its argument,
  and whether \<^verbatim>\<open>initialize\<close> still waits for the world data; it is called
  once, by the effect that runs when the component mounts (line 733).
  An action is a click that toggles a name, a click on the select-all button,
  the choice of a scope, the arrival of the response for one of the waiting
  calls, or the arrival of the world data that \<^verbatim>\<open>initialize\<close> awaits.
\<close>

record Session =
  state :: AppState
  suspended :: "Scope list"
  initializing :: bool

datatype action =
    Toggle string
  | SelectAll
  | SelectScope Scope
  | Response nat "Topology response"
  | WorldLoaded "FeatureCollection response"

fun step :: "action \<Rightarrow> Session \<Rightarrow> Session" where
  "step (Toggle locationName) s = s\<lparr>state := handleLocationToggle locationName (state s)\<rparr>"
| "step SelectAll s = s\<lparr>state := selectAllClick (state s)\<rparr>"
| "step (SelectScope scope) s =
     (case handleScopeSelection_begin scope (state s) of
        Finished st \<Rightarrow> s\<lparr>state := st\<rparr>
      | Suspended st \<Rightarrow> s\<lparr>state := st, suspended := suspended s @ [scope]\<rparr>)"
| "step (Response i resp) s =
     (if i < length (suspended s)
      then (case handleScopeSelection_resume (suspended s ! i) resp (state s) of
              Inl e \<Rightarrow> s\<lparr>suspended := take i (suspended s) @ drop (Suc i) (suspended s)\<rparr>
            | Inr st \<Rightarrow>
                s\<lparr>state := st,
                  suspended := take i (suspended s) @ drop (Suc i) (suspended s)\<rparr>)
      else s)"
| "step (WorldLoaded resp) s =
     (if initializing s
      then s\<lparr>state := initialize resp (state s), initializing := False\<rparr>
      else s)"

fun run :: "action list \<Rightarrow> Session \<Rightarrow> Session" where
  "run [] s = s"
| "run (a # as) s = run as (step a s)"

text \<open>The session of the first render.\<close>

definition session0 :: Session where
  "session0 = \<lparr>state = initialState, suspended = [], initializing = True\<rparr>"



subsection \<open>Strings\<close>

text \<open>The ASCII letters and digits of the regular expression
  \<^verbatim>\<open>[^a-zA-Z0-9-]\<close>, and the characters that the class \<^verbatim>\<open>\s\<close> matches (tab,
  line feed, vertical tab, form feed, carriage return, space, no-break space).\<close>

definition upperCase :: string where
  "upperCase = ''ABCDEFGHIJKLMNOPQRSTUVWXYZ''"

definition lowerCase :: string where
  "lowerCase = ''abcdefghijklmnopqrstuvwxyz''"

definition decimalDigits :: string where
  "decimalDigits = ''0123456789''"

definition whiteSpace :: string where
  "whiteSpace = [CHR 0x09, CHR 0x0A, CHR 0x0B, CHR 0x0C, CHR 0x0D, CHR '' '', CHR 0xA0]"

text \<open>The other letters below code unit 256 that have two cases: the capitals
  U+00C0 to U+00DE without the multiplication sign U+00D7, and their small
  forms 32 code units above.\<close>

definition upperLatin1 :: string where
  "upperLatin1 = [CHR 0xC0, CHR 0xC1, CHR 0xC2, CHR 0xC3, CHR 0xC4, CHR 0xC5, CHR 0xC6,
     CHR 0xC7, CHR 0xC8, CHR 0xC9, CHR 0xCA, CHR 0xCB, CHR 0xCC, CHR 0xCD, CHR 0xCE, CHR 0xCF,
     CHR 0xD0, CHR 0xD1, CHR 0xD2, CHR 0xD3, CHR 0xD4, CHR 0xD5, CHR 0xD6,
     CHR 0xD8, CHR 0xD9, CHR 0xDA, CHR 0xDB, CHR 0xDC, CHR 0xDD, CHR 0xDE]"

definition lowerLatin1 :: string where
  "lowerLatin1 = [CHR 0xE0, CHR 0xE1, CHR 0xE2, CHR 0xE3, CHR 0xE4, CHR 0xE5, CHR 0xE6,
     CHR 0xE7, CHR 0xE8, CHR 0xE9, CHR 0xEA, CHR 0xEB, CHR 0xEC, CHR 0xED, CHR 0xEE, CHR 0xEF,
     CHR 0xF0, CHR 0xF1, CHR 0xF2, CHR 0xF3, CHR 0xF4, CHR 0xF5, CHR 0xF6,
     CHR 0xF8, CHR 0xF9, CHR 0xFA, CHR 0xFB, CHR 0xFC, CHR 0xFD, CHR 0xFE]"

text \<open>\<^verbatim>\<open>String.prototype.toLowerCase\<close> on code units below 256: a capital
  letter becomes its small form, every other character stays.
  \<^verbatim>\<open>s.includes(t)\<close> holds when \<open>t\<close> starts at some position of \<open>s\<close>.\<close>

definition toLowerCase :: "string \<Rightarrow> string" where
  "toLowerCase s =
     map (\<lambda>c. case map_of (zip (upperCase @ upperLatin1) (lowerCase @ lowerLatin1)) c of
                Some l \<Rightarrow> l | None \<Rightarrow> c) s"

fun str_includes :: "string \<Rightarrow> string \<Rightarrow> bool" where
  "str_includes [] t = (t = [])"
| "str_includes (c # cs) t = (prefix t (c # cs) \<or> str_includes cs t)"

subsection \<open>The search filter (lines 869--873)\<close>

definition filteredLocations :: "AppState \<Rightarrow> string list" where
  "filteredLocations st =
     sort (filter (\<lambda>n. str_includes (toLowerCase n) (toLowerCase (searchQuery st)))
            (filter (\<lambda>n. n \<noteq> []) (map name (currentFeatures st))))"

text \<open>
  The words of the specification, stated without the functions of the code.
  Two characters are the same letter when they are equal or are the capital and
  the small form of one letter.  A name contains a query as a case-insensitive
  substring when some stretch of the name is, character by character, the same
  letters as the query.
\<close>

definition sameLetter :: "char \<Rightarrow> char \<Rightarrow> bool" where
  "sameLetter c d =
     (c = d
      \<or> (c, d) \<in> set (zip (upperCase @ upperLatin1) (lowerCase @ lowerLatin1))
      \<or> (d, c) \<in> set (zip (upperCase @ upperLatin1) (lowerCase @ lowerLatin1)))"

definition containsIgnoringCase :: "string \<Rightarrow> string \<Rightarrow> bool" where
  "containsIgnoringCase n q = (\<exists>u. sublist u n \<and> list_all2 sameLetter u q)"

text \<open>
  Alphabetical order, as far as the letters A to Z decide it: a name comes
  before another when, after a common beginning of the same letters, it goes on
  with a letter that is earlier in the alphabet, whatever the case.  A list is
  in alphabetical order when no name in it comes after a name that it comes
  before.
\<close>

definition alphabetPosition :: "char \<Rightarrow> nat option" where
  "alphabetPosition c =
     map_of (zip upperCase [0 ..< 26] @ zip lowerCase [0 ..< 26]) c"

definition alphabeticallyBefore :: "string \<Rightarrow> string \<Rightarrow> bool" where
  "alphabeticallyBefore a b =
     (\<exists>p x r p' y r' i j. a = p @ x # r \<and> b = p' @ y # r' \<and> list_all2 sameLetter p p'
        \<and> alphabetPosition x = Some i \<and> alphabetPosition y = Some j \<and> i < j)"

definition alphabetical :: "string list \<Rightarrow> bool" where
  "alphabetical ns = sorted_wrt (\<lambda>a b. \<not> alphabeticallyBefore b a) ns"

text \<open>Every loaded region has a name; the loaders establish it.\<close>

definition namesTruthy :: "AppState \<Rightarrow> bool" where
  "namesTruthy st =
     (list_all (\<lambda>d. name d \<noteq> []) (worldCountryFeatures st)
      \<and> list_all (\<lambda>d. name d \<noteq> []) (usStateFeatures st))"

subsection \<open>Addressing shapes by normalized name (lines 278--287, 361--380)\<close>

text \<open>\<^verbatim>\<open>replace(/\s/g, '-').replace(/[^a-zA-Z0-9-]/g, '')\<close>.\<close>

definition normalizeName :: "string \<Rightarrow> string" where
  "normalizeName locationName =
     filter (\<lambda>c. c \<in> set (lowerCase @ upperCase @ decimalDigits @ ''-''))
       (map (\<lambda>c. if c \<in> set whiteSpace then CHR ''-'' else c) locationName)"

text \<open>The shapes that \<^verbatim>\<open>renderMap\<close> joins to the features, in document order:
  the \<^verbatim>\<open>data-name\<close> attribute, the \<^verbatim>\<open>country-highlight\<close> class and the name of
  the bound feature.  \<^verbatim>\<open>handleLocationToggle\<close> selects the first shape whose
  \<^verbatim>\<open>data-name\<close> is the normalized name and flips its class.\<close>

record PathElement =
  dataName :: string
  highlight :: bool
  datum :: string

definition renderPaths :: "GeoFeature list \<Rightarrow> string set \<Rightarrow> PathElement list" where
  "renderPaths fs active =
     map (\<lambda>d. \<lparr>dataName = normalizeName (name d), highlight = (name d \<in> active),
                datum = name d\<rparr>) fs"

fun flipFirst :: "string \<Rightarrow> PathElement list \<Rightarrow> PathElement list" where
  "flipFirst normalizedName [] = []"
| "flipFirst normalizedName (p # ps) =
     (if dataName p = normalizedName then p\<lparr>highlight := \<not> highlight p\<rparr> # ps
      else p # flipFirst normalizedName ps)"

definition toggleHighlight :: "string \<Rightarrow> PathElement list \<Rightarrow> PathElement list" where
  "toggleHighlight locationName paths = flipFirst (normalizeName locationName) paths"

subsection \<open>JavaScript numbers\<close>

text \<open>
  The numbers of the component are IEEE 754 doubles.  Their arithmetic is a
  parameter of the model: the operations that the fit computation uses, strict
  equality \<^verbatim>\<open>===\<close>, the number of an integer, and the two infinities.  The
  computation is defined for every such arithmetic, so nothing about rounding or
  overflow is assumed.
\<close>

record 'n arithmetic =
  js_num :: "int \<Rightarrow> 'n"
  js_inf :: 'n
  js_neg_inf :: 'n
  js_eq :: "'n \<Rightarrow> 'n \<Rightarrow> bool"
  js_add :: "'n \<Rightarrow> 'n \<Rightarrow> 'n"
  js_sub :: "'n \<Rightarrow> 'n \<Rightarrow> 'n"
  js_mul :: "'n \<Rightarrow> 'n \<Rightarrow> 'n"
  js_div :: "'n \<Rightarrow> 'n \<Rightarrow> 'n"
  js_min :: "'n \<Rightarrow> 'n \<Rightarrow> 'n"

text \<open>
  One arithmetic for the examples: a number is a finite rational, an infinity
  or \<^verbatim>\<open>NaN\<close>; the operations follow IEEE 754 on the special values and are
  exact on the finite ones, and zero has no sign.  It agrees with the doubles
  wherever the doubles compute without rounding, as on the small integers of the
  examples.
\<close>

datatype jsnum = Fin rat | PosInf | NegInf | NaN

fun jneg :: "jsnum \<Rightarrow> jsnum" where
  "jneg (Fin a) = Fin (- a)"
| "jneg PosInf = NegInf"
| "jneg NegInf = PosInf"
| "jneg NaN = NaN"

fun jadd :: "jsnum \<Rightarrow> jsnum \<Rightarrow> jsnum" where
  "jadd (Fin a) (Fin b) = Fin (a + b)"
| "jadd NaN v = NaN"
| "jadd u NaN = NaN"
| "jadd PosInf NegInf = NaN"
| "jadd NegInf PosInf = NaN"
| "jadd PosInf v = PosInf"
| "jadd NegInf v = NegInf"
| "jadd (Fin a) v = v"

definition jsub :: "jsnum \<Rightarrow> jsnum \<Rightarrow> jsnum" where
  "jsub u v = jadd u (jneg v)"

fun jmul :: "jsnum \<Rightarrow> jsnum \<Rightarrow> jsnum" where
  "jmul (Fin a) (Fin b) = Fin (a * b)"
| "jmul NaN v = NaN"
| "jmul u NaN = NaN"
| "jmul (Fin a) v = (if a = 0 then NaN else if 0 < a then v else jneg v)"
| "jmul u (Fin b) = (if b = 0 then NaN else if 0 < b then u else jneg u)"
| "jmul PosInf v = v"
| "jmul NegInf v = jneg v"

fun jdiv :: "jsnum \<Rightarrow> jsnum \<Rightarrow> jsnum" where
  "jdiv (Fin a) (Fin b) =
     (if b = 0 then (if a = 0 then NaN else if 0 < a then PosInf else NegInf)
      else Fin (a / b))"
| "jdiv NaN v = NaN"
| "jdiv u NaN = NaN"
| "jdiv (Fin a) v = Fin 0"
| "jdiv u (Fin b) = (if 0 \<le> b then u else jneg u)"
| "jdiv u v = NaN"

fun jmin :: "jsnum \<Rightarrow> jsnum \<Rightarrow> jsnum" where
  "jmin (Fin a) (Fin b) = Fin (min a b)"
| "jmin NaN v = NaN"
| "jmin u NaN = NaN"
| "jmin NegInf v = NegInf"
| "jmin u NegInf = NegInf"
| "jmin PosInf v = v"
| "jmin u PosInf = u"

definition jeq :: "jsnum \<Rightarrow> jsnum \<Rightarrow> bool" where
  "jeq u v = (u \<noteq> NaN \<and> u = v)"

definition exact :: "jsnum arithmetic" where
  "exact = \<lparr>js_num = (\<lambda>i. Fin (of_int i)), js_inf = PosInf, js_neg_inf = NegInf,
     js_eq = jeq, js_add = jadd, js_sub = jsub, js_mul = jmul, js_div = jdiv, js_min = jmin\<rparr>"

subsection \<open>Fit to viewport (lines 180--205)\<close>

text \<open>The zoom transform of d3-zoom, with its fields \<^verbatim>\<open>k\<close>, \<^verbatim>\<open>x\<close>, \<^verbatim>\<open>y\<close>, its
  identity and its methods \<^verbatim>\<open>translate\<close> and \<^verbatim>\<open>scale\<close>.\<close>

record 'n ZoomTransform =
  t_k :: 'n
  t_x :: 'n
  t_y :: 'n

definition zoomIdentity :: "'n arithmetic \<Rightarrow> 'n ZoomTransform" where
  "zoomIdentity A = \<lparr>t_k = js_num A 1, t_x = js_num A 0, t_y = js_num A 0\<rparr>"

definition translate ::
  "'n arithmetic \<Rightarrow> 'n ZoomTransform \<Rightarrow> 'n \<Rightarrow> 'n \<Rightarrow> 'n ZoomTransform" where
  "translate A t u v =
     (if js_eq A u (js_num A 0) \<and> js_eq A v (js_num A 0) then t
      else \<lparr>t_k = t_k t, t_x = js_add A (t_x t) (js_mul A (t_k t) u),
             t_y = js_add A (t_y t) (js_mul A (t_k t) v)\<rparr>)"

definition scale :: "'n arithmetic \<Rightarrow> 'n ZoomTransform \<Rightarrow> 'n \<Rightarrow> 'n ZoomTransform" where
  "scale A t s =
     (if js_eq A s (js_num A 1) then t
      else \<lparr>t_k = js_mul A (t_k t) s, t_x = t_x t, t_y = t_y t\<rparr>)"

text \<open>\<^verbatim>\<open>updateSvgDimensionsAndFit\<close>.  Its parameters are what it reads: the
  arithmetic, whether the projection and the path generator exist, the active
  collection, the dimensions that \<^verbatim>\<open>updateSvgDimensions\<close> returns (integers of
  the DOM), the bounds that the path generator reports once the projection is
  fitted, and the transform stored in \<^verbatim>\<open>initialTransformRef\<close>; the result is
  the transform stored afterwards.\<close>

definition updateSvgDimensionsAndFit ::
  "'n arithmetic \<Rightarrow> bool \<Rightarrow> bool \<Rightarrow> GeoFeature list \<Rightarrow> int \<times> int
     \<Rightarrow> ('n \<times> 'n) \<times> ('n \<times> 'n) \<Rightarrow> 'n ZoomTransform \<Rightarrow> 'n ZoomTransform" where
  "updateSvgDimensionsAndFit A hasProjection hasPath fs dims bounds initialTransform =
     (case (dims, bounds) of ((width, height), ((x0, y0), (x1, y1))) \<Rightarrow>
        if \<not> hasProjection \<or> \<not> hasPath \<or> length fs = 0 then initialTransform
        else if width = 0 \<or> height = 0 then initialTransform
        else if js_eq A x0 (js_inf A) \<or> js_eq A x1 (js_neg_inf A)
                \<or> js_eq A y0 (js_inf A) \<or> js_eq A y1 (js_neg_inf A)
        then zoomIdentity A
        else
          (let s = js_min A (js_div A (js_num A width) (js_sub A x1 x0))
                            (js_div A (js_num A height) (js_sub A y1 y0));
               translateX = js_div A (js_sub A (js_num A width) (js_mul A s (js_add A x0 x1)))
                              (js_num A 2);
               translateY = js_div A (js_sub A (js_num A height) (js_mul A s (js_add A y0 y1)))
                              (js_num A 2)
           in scale A (translate A (zoomIdentity A) translateX translateY) s))"

subsection \<open>Examples\<close>

text \<open>A world of four countries, the response of a USA fetch, and the session
  in which the world is loaded.\<close>

definition fourCountries :: "FeatureCollection response" where
  "fourCountries = Document \<lparr>features = Some
     [\<lparr>hasProperties = True, rawName = ''Uganda'', rawNAME = [], geometryType = ''Polygon''\<rparr>,
      \<lparr>hasProperties = True, rawName = ''France'', rawNAME = [], geometryType = ''MultiPolygon''\<rparr>,
      \<lparr>hasProperties = True, rawName = ''USA'', rawNAME = [], geometryType = ''MultiPolygon''\<rparr>,
      \<lparr>hasProperties = True, rawName = ''Chad'', rawNAME = [], geometryType = ''Polygon''\<rparr>]\<rparr>"

definition twoStates :: "Topology response" where
  "twoStates = Document \<lparr>objects = [(''states'',
     GeometryCollection [\<lparr>name = ''Texas''\<rparr>, \<lparr>name = ''Guam''\<rparr>, \<lparr>name = ''Ohio''\<rparr>])]\<rparr>"

definition france :: "GeoFeature list" where
  "france = [\<lparr>name = ''France''\<rparr>]"

definition worldReady :: Session where
  "worldReady = run [WorldLoaded fourCountries] session0"



definition loadingUsa :: Session where
  "loadingUsa = run [Toggle ''Chad'', SelectScope Usa] worldReady"

section \<open>The four-scope revision\<close>

text \<open>
  The first file of \<^verbatim>\<open>src/unnamed/part_001\<close> is a later revision of the same
  component with the scopes world, USA, Europe and China.  Its names carry the
  suffix 4 here.  \<^verbatim>\<open>loadUSAData\<close> has the text of the two-scope file, so its
  \<^verbatim>\<open>try\<close> block is the one above.
\<close>

subsection \<open>Data model and computed values (lines 11, 37--46, 60--96)\<close>

datatype Scope4 = World4 | Usa4 | Europe4 | China4

text \<open>An object of a topology whose features are given as raw features: it
  converts to a feature collection when it is a geometry collection, and to a
  single feature otherwise.\<close>

datatype raw_object = RawCollection "RawFeature list" | RawGeometry RawFeature

record RawTopology =
  rawObjects :: "(string \<times> raw_object) list"

record RawFeatureCollection =
  rawFeatures :: "RawFeature list option"

text \<open>The state cells that the handlers below read or write.\<close>

record AppState4 =
  currentScope4 :: Scope4
  activeLocations4 :: "string set"
  isLoading4 :: bool
  worldCountryFeatures4 :: "GeoFeature list"
  usStateFeatures4 :: "GeoFeature list"
  europeCountryFeatures4 :: "GeoFeature list"
  chinaProvinceFeatures4 :: "GeoFeature list"
  notifications4 :: "(string \<times> NotificationType) list"

definition currentFeatures4 :: "AppState4 \<Rightarrow> GeoFeature list" where
  "currentFeatures4 st =
     (if currentScope4 st = World4 then worldCountryFeatures4 st
      else if currentScope4 st = Usa4 then usStateFeatures4 st
      else if currentScope4 st = Europe4 then europeCountryFeatures4 st
      else chinaProvinceFeatures4 st)"

definition locationsCount4 :: "AppState4 \<Rightarrow> nat" where
  "locationsCount4 st = card (activeLocations4 st)"

definition totalReference4 :: "AppState4 \<Rightarrow> nat" where
  "totalReference4 st =
     (if currentScope4 st = World4 then length (worldCountryFeatures4 st)
      else length (usStateFeatures4 st))"

definition percentage4 :: "AppState4 \<Rightarrow> string" where
  "percentage4 st =
     (if totalReference4 st > 0
      then toFixed1 ((of_nat (locationsCount4 st) / of_nat (totalReference4 st)) * 100)
      else ''0.0'')"

subsection \<open>Loaders (lines 134--311)\<close>

definition showNotification4 :: "string \<Rightarrow> NotificationType \<Rightarrow> AppState4 \<Rightarrow> AppState4" where
  "showNotification4 message type st =
     st\<lparr>notifications4 := (message, type) # notifications4 st\<rparr>"

definition loadUSAData4_body :: "Topology response \<Rightarrow> AppState4 \<Rightarrow> error + AppState4" where
  "loadUSAData4_body resp st = (case loadUSAData_try resp of
       Inr filteredFeatures \<Rightarrow> Inr (st\<lparr>usStateFeatures4 := filteredFeatures\<rparr>)
     | Inl e \<Rightarrow> Inr ((showNotification4
           ''Failed to load US states map data. Check the console.'' Error st)
           \<lparr>usStateFeatures4 := []\<rparr>))"

text \<open>The name that \<^verbatim>\<open>loadEuropeData\<close> gives a feature: \<^verbatim>\<open>NAME\<close> when
  \<^verbatim>\<open>name\<close> is missing, and \<^verbatim>\<open>String(name || NAME || 'Unknown')\<close> when it is
  still missing.\<close>

definition europeName :: "RawFeature \<Rightarrow> string" where
  "europeName d =
     (let n1 = (if rawName d = [] \<and> rawNAME d \<noteq> [] then rawNAME d else rawName d)
      in if n1 = []
         then (if n1 \<noteq> [] then n1 else if rawNAME d \<noteq> [] then rawNAME d else ''Unknown'')
         else n1)"

text \<open>The conversion of the topology gives every feature a \<^verbatim>\<open>properties\<close>
  object, empty when the topology has none for it; the filter of the loader then
  tests it.\<close>

definition loadEuropeData_try :: "RawTopology response \<Rightarrow> error + GeoFeature list" where
  "loadEuropeData_try resp = (case resp of
       Rejected \<Rightarrow> Inl FetchRejected
     | Undefined \<Rightarrow> Inl NoData
     | Document topoData \<Rightarrow> (case map_of (rawObjects topoData) ''europe'' of
           None \<Rightarrow> Inl ObjectNotFound
         | Some (RawGeometry g) \<Rightarrow> Inl ConversionFailed
         | Some (RawCollection gs) \<Rightarrow>
             Inr (map (\<lambda>d. \<lparr>name = europeName d\<rparr>)
                    (filter (\<lambda>d. hasProperties d \<and> geometryType d \<noteq> [])
                       (map (\<lambda>d. d\<lparr>hasProperties := True\<rparr>) gs)))))"

definition loadEuropeData_body :: "RawTopology response \<Rightarrow> AppState4 \<Rightarrow> error + AppState4" where
  "loadEuropeData_body resp st = (case loadEuropeData_try resp of
       Inr fs \<Rightarrow> Inr (st\<lparr>europeCountryFeatures4 := fs\<rparr>)
     | Inl e \<Rightarrow> Inr ((showNotification4
           ''Failed to load Europe map data. Check the console.'' Error st)
           \<lparr>europeCountryFeatures4 := []\<rparr>))"

definition chinaName :: "RawFeature \<Rightarrow> string" where
  "chinaName d = (if rawName d = [] then ''Unknown'' else rawName d)"

definition loadChinaData_try :: "RawFeatureCollection response \<Rightarrow> error + GeoFeature list" where
  "loadChinaData_try resp = (case resp of
       Rejected \<Rightarrow> Inl FetchRejected
     | Undefined \<Rightarrow> Inl NoData
     | Document geoJsonData \<Rightarrow> (case rawFeatures geoJsonData of
           None \<Rightarrow> Inl TypeError
         | Some gs \<Rightarrow>
             Inr (map (\<lambda>d. \<lparr>name = chinaName d\<rparr>)
                    (filter (\<lambda>d. hasProperties d \<and> rawName d \<noteq> [] \<and> geometryType d \<noteq> []
                               \<and> geometryType d \<noteq> ''GeometryCollection'') gs))))"

definition loadChinaData_body :: "RawFeatureCollection response \<Rightarrow> AppState4 \<Rightarrow> error + AppState4" where
  "loadChinaData_body resp st = (case loadChinaData_try resp of
       Inr fs \<Rightarrow> Inr (st\<lparr>chinaProvinceFeatures4 := fs\<rparr>)
     | Inl e \<Rightarrow> Inr ((showNotification4
           ''Failed to load China provinces map data. Check the console.'' Error st)
           \<lparr>chinaProvinceFeatures4 := []\<rparr>))"

subsection \<open>Scope switches with the fetch in flight (lines 509--530)\<close>

text \<open>
  \<^verbatim>\<open>handleScopeSelection\<close> awaits the loader, and the loader awaits the fetch;
  other handlers run in between.  The model splits the handler at the await: the
  event \<open>Select\<close> runs it up to the fetch and records the suspended call; the
  event \<open>Resolve\<close> delivers a response to a suspended call, which runs the rest of
  the loader and of the handler.  A loader that returns at its guard suspends for
  no event, so the handler finishes within \<open>Select\<close>.

  The guards of \<^verbatim>\<open>loadEuropeData\<close> and \<^verbatim>\<open>loadChinaData\<close> read the collection
  that the callback captured when it was created; their dependency lists name
  only \<^verbatim>\<open>showNotification\<close>, so this is the empty collection of the first
  render.
\<close>

datatype fetched =
    UsaFetched "Topology response"
  | EuropeFetched "RawTopology response"
  | ChinaFetched "RawFeatureCollection response"

text \<open>Whether the loader of a scope passes its guard and starts a fetch.\<close>

definition startsFetch :: "Scope4 \<Rightarrow> AppState4 \<Rightarrow> bool" where
  "startsFetch scope st = (case scope of
       World4 \<Rightarrow> False
     | Usa4 \<Rightarrow> \<not> length (usStateFeatures4 st) > 0
     | Europe4 \<Rightarrow> \<not> length ([] :: GeoFeature list) > 0
     | China4 \<Rightarrow> \<not> length ([] :: GeoFeature list) > 0)"

definition resume :: "Scope4 \<Rightarrow> fetched \<Rightarrow> AppState4 \<Rightarrow> (error + AppState4) option" where
  "resume scope f st = (case (scope, f) of
       (Usa4, UsaFetched r) \<Rightarrow> Some (loadUSAData4_body r st)
     | (Europe4, EuropeFetched r) \<Rightarrow> Some (loadEuropeData_body r st)
     | (China4, ChinaFetched r) \<Rightarrow> Some (loadChinaData_body r st)
     | _ \<Rightarrow> None)"

definition finish :: "Scope4 \<Rightarrow> AppState4 \<Rightarrow> AppState4" where
  "finish scope st = st\<lparr>isLoading4 := False, currentScope4 := scope\<rparr>"

record System =
  app :: AppState4
  pending :: "Scope4 list"

datatype event = Select Scope4 | Resolve nat fetched | Toggle4 string

fun react :: "event \<Rightarrow> System \<Rightarrow> System" where
  "react (Select scope) sys =
     (if scope = currentScope4 (app sys) then sys
      else
        (let st1 = (app sys)\<lparr>activeLocations4 := {}, isLoading4 := True\<rparr> in
         if startsFetch scope st1
         then sys\<lparr>app := st1, pending := pending sys @ [scope]\<rparr>
         else sys\<lparr>app := finish scope st1\<rparr>))"
| "react (Resolve i f) sys =
     (if i < length (pending sys)
      then (case resume (pending sys ! i) f (app sys) of
              None \<Rightarrow> sys
            | Some (Inl e) \<Rightarrow> sys\<lparr>pending := take i (pending sys) @ drop (Suc i) (pending sys)\<rparr>
            | Some (Inr st') \<Rightarrow>
                \<lparr>app = finish (pending sys ! i) st',
                 pending = take i (pending sys) @ drop (Suc i) (pending sys)\<rparr>)
      else sys)"
| "react (Toggle4 locationName) sys =
     sys\<lparr>app := (app sys)\<lparr>activeLocations4 :=
        toggle locationName (activeLocations4 (app sys))\<rparr>\<rparr>"

fun reacts :: "event list \<Rightarrow> System \<Rightarrow> System" where
  "reacts [] sys = sys"
| "reacts (e # es) sys = reacts es (react e sys)"

text \<open>What a response leaves in the collection of its scope.\<close>

definition delivered :: "fetched \<Rightarrow> GeoFeature list" where
  "delivered f = (case f of
       UsaFetched r \<Rightarrow> (case loadUSAData_try r of Inr fs \<Rightarrow> fs | Inl e \<Rightarrow> [])
     | EuropeFetched r \<Rightarrow> (case loadEuropeData_try r of Inr fs \<Rightarrow> fs | Inl e \<Rightarrow> [])
     | ChinaFetched r \<Rightarrow> (case loadChinaData_try r of Inr fs \<Rightarrow> fs | Inl e \<Rightarrow> []))"

text \<open>Example states of the four-scope revision.\<close>

definition worldReady4 :: System where
  "worldReady4 = \<lparr>app = \<lparr>currentScope4 = World4, activeLocations4 = {}, isLoading4 = False,
       worldCountryFeatures4 = [\<lparr>name = ''France''\<rparr>, \<lparr>name = ''Chad''\<rparr>],
       usStateFeatures4 = [], europeCountryFeatures4 = [], chinaProvinceFeatures4 = [],
       notifications4 = []\<rparr>,
     pending = []\<rparr>"

definition twoEuropeans :: "RawTopology response" where
  "twoEuropeans = Document \<lparr>rawObjects = [(''europe'', RawCollection
     [\<lparr>hasProperties = True, rawName = [], rawNAME = ''France'', geometryType = ''MultiPolygon''\<rparr>,
      \<lparr>hasProperties = True, rawName = [], rawNAME = ''Spain'', geometryType = ''Polygon''\<rparr>])]\<rparr>"

definition inEurope :: System where
  "inEurope = reacts [Select Europe4, Resolve 0 (EuropeFetched twoEuropeans), Toggle4 ''Spain'']
     worldReady4"

definition europeActive :: System where
  "europeActive = reacts [Select Usa4, Select Europe4, Resolve 1 (EuropeFetched twoEuropeans),
     Toggle4 ''Spain''] worldReady4"

section \<open>Properties\<close>

subsection \<open>The example states\<close>

lemma worldReady_eq:
  "worldReady = \<lparr>state = \<lparr>currentScope = World, activeLocations = {}, isLoading = False,
       searchQuery = [],
       worldCountryFeatures = [\<lparr>name = ''Uganda''\<rparr>, \<lparr>name = ''France''\<rparr>,
         \<lparr>name = ''USA''\<rparr>, \<lparr>name = ''Chad''\<rparr>],
       usStateFeatures = [], notifications = []\<rparr>,
     suspended = [], initializing = False\<rparr>"
  by (simp add: worldReady_def session0_def initialize_def fourCountries_def initialState_def
      loadWorldData_def loadWorldData_try_def)

lemma twoStates_try:
  "loadUSAData_try twoStates = Inr [\<lparr>name = ''Texas''\<rparr>, \<lparr>name = ''Ohio''\<rparr>]"
  by (simp add: loadUSAData_try_def twoStates_def feature_def usStates_def)

lemma loadingUsa_eq:
  "loadingUsa = \<lparr>state = \<lparr>currentScope = World, activeLocations = {}, isLoading = True,
       searchQuery = [],
       worldCountryFeatures = [\<lparr>name = ''Uganda''\<rparr>, \<lparr>name = ''France''\<rparr>,
         \<lparr>name = ''USA''\<rparr>, \<lparr>name = ''Chad''\<rparr>],
       usStateFeatures = [], notifications = []\<rparr>,
     suspended = [Usa], initializing = False\<rparr>"
  by (simp add: loadingUsa_def worldReady_eq handleLocationToggle_def toggle_def
      handleScopeSelection_begin_def loadUSAData_begin_def)

subsection \<open>Toggle\<close>

lemma toggle_member: "n \<in> toggle n S \<longleftrightarrow> n \<notin> S"
  by (simp add: toggle_def)

lemma toggle_other: "m \<noteq> n \<Longrightarrow> m \<in> toggle n S \<longleftrightarrow> m \<in> S"
  by (simp add: toggle_def)

text \<open>
  C7.  For every Selection Store state \<open>S\<close> and every region name \<open>n\<close>, toggling
  \<open>n\<close> flips the membership of \<open>n\<close> and of nothing else, and toggling \<open>n\<close> twice
  yields exactly \<open>S\<close>; the same holds of the handler on the whole state.
\<close>

theorem toggle_twice:
  "toggle n (toggle n S) = S
   \<and> (n \<in> toggle n S \<longleftrightarrow> n \<notin> S)
   \<and> toggle n S - {n} = S - {n}
   \<and> handleLocationToggle n (handleLocationToggle n st) = st"
proof -
  have twice: "toggle n (toggle n T) = T" for T
    by (auto simp: toggle_def)
  have "handleLocationToggle n (handleLocationToggle n st) = st"
    by (simp add: handleLocationToggle_def twice)
  moreover have "toggle n S - {n} = S - {n}"
    by (auto simp: toggle_def)
  ultimately show ?thesis
    using twice [of S] by (simp add: toggle_member)
qed

subsection \<open>The select-all button\<close>

lemma currentFeatures_activeLocations [simp]:
  "currentFeatures (st\<lparr>activeLocations := S\<rparr>) = currentFeatures st"
  by (simp add: currentFeatures_def)




subsection \<open>The loader and the two parts of the scope handler\<close>

lemma loadUSAData_body_Inr: "\<exists>st'. loadUSAData_body resp st = Inr st'"
  by (simp add: loadUSAData_body_def split: sum.split)

lemma loadUSAData_body_keeps:
  assumes "loadUSAData_body resp st = Inr st'"
  shows "currentScope st' = currentScope st \<and> activeLocations st' = activeLocations st
    \<and> worldCountryFeatures st' = worldCountryFeatures st \<and> isLoading st' = isLoading st
    \<and> searchQuery st' = searchQuery st"
  using assms
  by (auto simp: loadUSAData_body_def showNotification_def split: sum.splits)

lemma handleScopeSelection_resume_Inr:
  "\<exists>st'. handleScopeSelection_resume scope resp st = Inr st'"
  using loadUSAData_body_Inr [of resp st]
  by (auto simp: handleScopeSelection_resume_def)

lemma handleScopeSelection_resume_keeps:
  assumes "handleScopeSelection_resume scope resp st = Inr st'"
  shows "currentScope st' = scope \<and> activeLocations st' = activeLocations st
    \<and> worldCountryFeatures st' = worldCountryFeatures st \<and> isLoading st' = False"
proof (cases "loadUSAData_body resp st")
  case (Inl e)
  with assms show ?thesis by (simp add: handleScopeSelection_resume_def)
next
  case (Inr st2)
  from assms Inr have e: "st' = st2\<lparr>isLoading := False, currentScope := scope\<rparr>"
    by (simp add: handleScopeSelection_resume_def)
  from loadUSAData_body_keeps [OF Inr] show ?thesis unfolding e by simp
qed

lemma handleScopeSelection_begin_same:
  "scope = currentScope st \<Longrightarrow> handleScopeSelection_begin scope st = Finished st"
  by (simp add: handleScopeSelection_begin_def)

lemma handleScopeSelection_begin_cases:
  assumes "scope \<noteq> currentScope st"
  shows "handleScopeSelection_begin scope st =
     (if scope = Usa \<and> usStateFeatures st = []
      then Suspended (st\<lparr>activeLocations := {}, isLoading := True\<rparr>)
      else Finished (st\<lparr>activeLocations := {}, isLoading := (if scope = Usa then False else isLoading st),
                        currentScope := scope\<rparr>))"
  using assms
  by (cases scope) (auto simp: handleScopeSelection_begin_def loadUSAData_begin_def Let_def)

lemma step_Response:
  assumes "i < length (suspended s)"
  shows "\<exists>st'. handleScopeSelection_resume (suspended s ! i) resp (state s) = Inr st'
     \<and> step (Response i resp) s =
         s\<lparr>state := st', suspended := take i (suspended s) @ drop (Suc i) (suspended s)\<rparr>"
proof -
  from handleScopeSelection_resume_Inr [of "suspended s ! i" resp "state s"]
  obtain st' where "handleScopeSelection_resume (suspended s ! i) resp (state s) = Inr st'" ..
  with assms show ?thesis by simp
qed

text \<open>
  C3 (as amended).  When a switch to a scope other than the current one is
  requested, the Selection Store is emptied at once, whatever it held.  A switch
  that needs no fetch completes in the same step, with the store empty; a switch
  to the USA with no states loaded waits for its fetch, the current scope
  unchanged.  When the response arrives the handler makes the requested scope
  the current one and leaves the Selection Store as it then is.
\<close>

theorem scope_switch_clears:
  assumes "scope \<noteq> currentScope (state s)" and "i < length (suspended s')"
  shows "activeLocations (state (step (SelectScope scope) s)) = {}
     \<and> (if scope = Usa \<and> usStateFeatures (state s) = []
         then currentScope (state (step (SelectScope scope) s)) = currentScope (state s)
            \<and> suspended (step (SelectScope scope) s) = suspended s @ [scope]
         else currentScope (state (step (SelectScope scope) s)) = scope
            \<and> suspended (step (SelectScope scope) s) = suspended s)
     \<and> currentScope (state (step (Response i resp) s')) = suspended s' ! i
     \<and> activeLocations (state (step (Response i resp) s')) = activeLocations (state s')
     \<and> suspended (step (Response i resp) s') = take i (suspended s') @ drop (Suc i) (suspended s')"
proof -
  from step_Response [OF assms(2), of resp] obtain st'
    where r: "handleScopeSelection_resume (suspended s' ! i) resp (state s') = Inr st'"
      and e: "step (Response i resp) s' =
         s'\<lparr>state := st', suspended := take i (suspended s') @ drop (Suc i) (suspended s')\<rparr>"
    by auto
  from handleScopeSelection_resume_keeps [OF r] e
  have 2: "currentScope (state (step (Response i resp) s')) = suspended s' ! i
     \<and> activeLocations (state (step (Response i resp) s')) = activeLocations (state s')
     \<and> suspended (step (Response i resp) s') = take i (suspended s') @ drop (Suc i) (suspended s')"
    by simp
  have 1: "activeLocations (state (step (SelectScope scope) s)) = {}
     \<and> (if scope = Usa \<and> usStateFeatures (state s) = []
         then currentScope (state (step (SelectScope scope) s)) = currentScope (state s)
            \<and> suspended (step (SelectScope scope) s) = suspended s @ [scope]
         else currentScope (state (step (SelectScope scope) s)) = scope
            \<and> suspended (step (SelectScope scope) s) = suspended s)"
  proof (cases "scope = Usa \<and> usStateFeatures (state s) = []")
    case True
    with handleScopeSelection_begin_cases [OF assms(1)]
    have "handleScopeSelection_begin scope (state s)
        = Suspended ((state s)\<lparr>activeLocations := {}, isLoading := True\<rparr>)"
      by simp
    then have e: "step (SelectScope scope) s
        = s\<lparr>state := (state s)\<lparr>activeLocations := {}, isLoading := True\<rparr>,
             suspended := suspended s @ [scope]\<rparr>"
      by simp
    show ?thesis unfolding e if_P [OF True] by simp
  next
    case False
    with handleScopeSelection_begin_cases [OF assms(1)]
    have "handleScopeSelection_begin scope (state s)
        = Finished ((state s)\<lparr>activeLocations := {},
            isLoading := (if scope = Usa then False else isLoading (state s)),
            currentScope := scope\<rparr>)"
      by simp
    then have e: "step (SelectScope scope) s
        = s\<lparr>state := (state s)\<lparr>activeLocations := {},
            isLoading := (if scope = Usa then False else isLoading (state s)),
            currentScope := scope\<rparr>\<rparr>"
      by simp
    show ?thesis unfolding e if_not_P [OF False] by simp
  qed
  show ?thesis
    by (rule conjI [OF conjunct1 [OF 1] conjI [OF conjunct2 [OF 1] 2]])
qed

text \<open>C3 as stated fails: the user selects the USA, clicks France on the map of
  the world, which is still shown while the fetch is in flight, and the response
  arrives; the USA scope is then active and the store holds France.\<close>

theorem scope_switch_clears_counterexample:
  "currentScope (state (run [SelectScope Usa, Toggle ''France'', Response 0 twoStates] worldReady)) = Usa
   \<and> activeLocations (state (run [SelectScope Usa, Toggle ''France'', Response 0 twoStates] worldReady))
        = {''France''}
   \<and> suspended (run [SelectScope Usa, Toggle ''France'', Response 0 twoStates] worldReady) = []"
  by (simp add: worldReady_eq handleLocationToggle_def toggle_def
      handleScopeSelection_begin_def loadUSAData_begin_def handleScopeSelection_resume_def
      loadUSAData_body_def twoStates_try)

theorem scope_switch_clears_witness:
  "Usa \<noteq> currentScope (state (step (Toggle ''Chad'') worldReady))
   \<and> 0 < length (suspended loadingUsa)
   \<and> activeLocations (state (step (Toggle ''Chad'') worldReady)) = {''Chad''}
   \<and> activeLocations (state (step (SelectScope Usa) (step (Toggle ''Chad'') worldReady))) = {}
   \<and> currentScope (state (step (Response 0 twoStates) loadingUsa)) = Usa
   \<and> activeLocations (state (step (Response 0 twoStates) loadingUsa)) = {}"
proof -
  have a: "Usa \<noteq> currentScope (state (step (Toggle ''Chad'') worldReady))"
    by (simp add: worldReady_eq handleLocationToggle_def)
  have b: "0 < length (suspended loadingUsa)"
    by (simp add: loadingUsa_eq)
  have c: "activeLocations (state (step (Toggle ''Chad'') worldReady)) = {''Chad''}"
    by (simp add: worldReady_eq handleLocationToggle_def toggle_def)
  note th = scope_switch_clears [OF a b, of twoStates]
  from th have 1: "activeLocations (state (step (SelectScope Usa) (step (Toggle ''Chad'') worldReady))) = {}"
    by blast
  from th have 2: "currentScope (state (step (Response 0 twoStates) loadingUsa)) = suspended loadingUsa ! 0"
    and 3: "activeLocations (state (step (Response 0 twoStates) loadingUsa))
        = activeLocations (state loadingUsa)"
    by blast+
  from a b c 1 2 3 show ?thesis by (simp add: loadingUsa_eq)
qed

subsection \<open>The Selection Store names regions of the active collection\<close>









lemma initialize_cases:
  "initialize resp st = (case loadWorldData_try resp of
       Inr fs \<Rightarrow> st\<lparr>isLoading := False, worldCountryFeatures := fs\<rparr>
     | Inl e \<Rightarrow> st\<lparr>isLoading := False\<rparr>)"
  by (simp add: initialize_def loadWorldData_def split: sum.split)








lemma run_failed_load:
  "run [SelectScope Usa, Response 0 Rejected] worldReady =
     \<lparr>state = \<lparr>currentScope = Usa, activeLocations = {}, isLoading = False,
        searchQuery = [],
        worldCountryFeatures = [\<lparr>name = ''Uganda''\<rparr>, \<lparr>name = ''France''\<rparr>,
          \<lparr>name = ''USA''\<rparr>, \<lparr>name = ''Chad''\<rparr>],
        usStateFeatures = [],
        notifications = [(''Failed to load US states map data. Check the console.'', Error)]\<rparr>,
      suspended = [], initializing = False\<rparr>"
  by (simp add: worldReady_eq handleScopeSelection_begin_def loadUSAData_begin_def
      handleScopeSelection_resume_def loadUSAData_body_def loadUSAData_try_def
      showNotification_def)


lemma run_toggle_failed_load:
  "run [SelectScope Usa, Toggle ''France'', Response 0 Rejected] worldReady =
     \<lparr>state = \<lparr>currentScope = Usa, activeLocations = {''France''}, isLoading = False,
        searchQuery = [],
        worldCountryFeatures = [\<lparr>name = ''Uganda''\<rparr>, \<lparr>name = ''France''\<rparr>,
          \<lparr>name = ''USA''\<rparr>, \<lparr>name = ''Chad''\<rparr>],
        usStateFeatures = [],
        notifications = [(''Failed to load US states map data. Check the console.'', Error)]\<rparr>,
      suspended = [], initializing = False\<rparr>"
  by (simp add: worldReady_eq handleScopeSelection_begin_def loadUSAData_begin_def
      handleLocationToggle_def toggle_def
      handleScopeSelection_resume_def loadUSAData_body_def loadUSAData_try_def
      showNotification_def)



subsection \<open>Failing loads\<close>

text \<open>Which deliveries make the try block of a loader throw.\<close>

lemma loadUSAData_try_Inl_iff:
  "(\<exists>e. loadUSAData_try resp = Inl e) \<longleftrightarrow>
     (resp = Rejected \<or> resp = Undefined
      \<or> (\<exists>topoData. resp = Document topoData \<and> map_of (objects topoData) ''states'' = None))"
  by (auto simp: loadUSAData_try_def feature_def Let_def
      split: response.splits option.splits topo_object.splits sum.splits)

lemma loadWorldData_try_Inl_iff:
  "(\<exists>e. loadWorldData_try resp = Inl e) \<longleftrightarrow>
     (resp = Rejected \<or> resp = Undefined
      \<or> (\<exists>geoJsonData. resp = Document geoJsonData
            \<and> (case features geoJsonData of None \<Rightarrow> True
                | Some gs \<Rightarrow> \<not> list_all hasProperties gs)))"
  by (auto simp: loadWorldData_try_def split: response.splits option.splits)

text \<open>C8 as stated fails: after a failed USA load the switch still completes, so
  that the active scope is the failed one and not the previous one, with an
  empty collection and with whatever was selected while the fetch was in flight;
  and a failed world load is thrown again by the loader and ends in no
  notification.\<close>

theorem load_failure_counterexample:
  "currentScope (state worldReady) = World
   \<and> suspended (run [SelectScope Usa, Response 0 Rejected] worldReady) = []
   \<and> currentScope (state (run [SelectScope Usa, Response 0 Rejected] worldReady)) = Usa
   \<and> currentFeatures (state (run [SelectScope Usa, Response 0 Rejected] worldReady)) = []
   \<and> activeLocations (state (run [SelectScope Usa, Toggle ''France'', Response 0 Rejected] worldReady))
       = {''France''}
   \<and> loadWorldData Rejected initialState = Inl FetchRejected
   \<and> notifications (initialize Rejected initialState) = []"
  unfolding run_failed_load run_toggle_failed_load
  by (simp add: worldReady_eq loadWorldData_def loadWorldData_try_def
      initialize_def initialState_def currentFeatures_def)

text \<open>
  C8 (as amended).  When the response for a waiting switch to the USA is a
  failure (the fetch is rejected, delivers nothing, or the document lacks the
  expected object key), an error notification is shown, the USA collection is
  left empty and no error escapes the loader or the scope handler; the switch
  still completes, so that the USA scope becomes the active one, with an empty
  collection, the Selection Store as it was when the response arrived and the
  world collection untouched.  When loading the world data fails, the loader
  throws the error again and the start-up code catches it: no notification is
  shown and nothing but the loading flag changes.
\<close>

theorem load_failure:
  assumes "i < length (suspended s)" and "suspended s ! i = Usa"
    and "loadUSAData_try usaResp = Inl e" and "loadWorldData_try worldResp = Inl e'"
  shows "(\<exists>st'. handleScopeSelection_resume Usa usaResp (state s) = Inr st'
            \<and> state (step (Response i usaResp) s) = st')
     \<and> notifications (state (step (Response i usaResp) s)) =
         (''Failed to load US states map data. Check the console.'', Error)
           # notifications (state s)
     \<and> usStateFeatures (state (step (Response i usaResp) s)) = []
     \<and> currentScope (state (step (Response i usaResp) s)) = Usa
     \<and> currentFeatures (state (step (Response i usaResp) s)) = []
     \<and> activeLocations (state (step (Response i usaResp) s)) = activeLocations (state s)
     \<and> worldCountryFeatures (state (step (Response i usaResp) s)) = worldCountryFeatures (state s)
     \<and> isLoading (state (step (Response i usaResp) s)) = False
     \<and> loadWorldData worldResp st = Inl e'
     \<and> initialize worldResp st = st\<lparr>isLoading := False\<rparr>"
proof -
  have r: "handleScopeSelection_resume Usa usaResp (state s) =
      Inr ((state s)\<lparr>notifications :=
          (''Failed to load US states map data. Check the console.'', Error)
            # notifications (state s),
          usStateFeatures := [], isLoading := False, currentScope := Usa\<rparr>)"
    using assms(3)
    by (simp add: handleScopeSelection_resume_def loadUSAData_body_def showNotification_def)
  have e: "step (Response i usaResp) s =
      s\<lparr>state := (state s)\<lparr>notifications :=
          (''Failed to load US states map data. Check the console.'', Error)
            # notifications (state s),
          usStateFeatures := [], isLoading := False, currentScope := Usa\<rparr>,
       suspended := take i (suspended s) @ drop (Suc i) (suspended s)\<rparr>"
    using assms(1,2) r by simp
  have w: "loadWorldData worldResp st = Inl e'
     \<and> initialize worldResp st = st\<lparr>isLoading := False\<rparr>"
    using assms(4) by (simp add: loadWorldData_def initialize_def)
  show ?thesis unfolding e r using w by (simp add: currentFeatures_def)
qed

theorem load_failure_witness:
  "0 < length (suspended loadingUsa) \<and> suspended loadingUsa ! 0 = Usa
   \<and> loadUSAData_try (Document \<lparr>objects = [(''counties'', GeometryCollection [])]\<rparr>) = Inl TypeError
   \<and> loadWorldData_try Undefined = Inl NoData
   \<and> notifications (state (step
        (Response 0 (Document \<lparr>objects = [(''counties'', GeometryCollection [])]\<rparr>)) loadingUsa))
       = [(''Failed to load US states map data. Check the console.'', Error)]
   \<and> currentScope (state (step
        (Response 0 (Document \<lparr>objects = [(''counties'', GeometryCollection [])]\<rparr>)) loadingUsa))
       = Usa
   \<and> currentFeatures (state (step
        (Response 0 (Document \<lparr>objects = [(''counties'', GeometryCollection [])]\<rparr>)) loadingUsa))
       = []
   \<and> loadWorldData Undefined initialState = Inl NoData
   \<and> initialize Undefined initialState = initialState\<lparr>isLoading := False\<rparr>"
proof -
  have a: "0 < length (suspended loadingUsa)" and b: "suspended loadingUsa ! 0 = Usa"
    by (simp_all add: loadingUsa_eq)
  have c: "loadUSAData_try (Document \<lparr>objects = [(''counties'', GeometryCollection [])]\<rparr>)
      = Inl TypeError"
    by (simp add: loadUSAData_try_def feature_def)
  have d: "loadWorldData_try Undefined = Inl NoData"
    by (simp add: loadWorldData_try_def)
  note th = load_failure [OF a b c d, of initialState]
  from th have 1: "notifications (state (step
        (Response 0 (Document \<lparr>objects = [(''counties'', GeometryCollection [])]\<rparr>)) loadingUsa))
       = (''Failed to load US states map data. Check the console.'', Error)
           # notifications (state loadingUsa)"
    by (elim conjE)
  from th have 2: "currentScope (state (step
        (Response 0 (Document \<lparr>objects = [(''counties'', GeometryCollection [])]\<rparr>)) loadingUsa))
       = Usa"
    by (elim conjE)
  from th have 3: "currentFeatures (state (step
        (Response 0 (Document \<lparr>objects = [(''counties'', GeometryCollection [])]\<rparr>)) loadingUsa))
       = []"
    by (elim conjE)
  from th have 4: "loadWorldData Undefined initialState = Inl NoData"
    by (elim conjE)
  from th have 5: "initialize Undefined initialState = initialState\<lparr>isLoading := False\<rparr>"
    by (elim conjE)
  have n: "notifications (state loadingUsa) = []" by (simp add: loadingUsa_eq)
  from a b c d 1 2 3 4 5 show ?thesis unfolding n by (intro conjI)
qed

subsection \<open>The search filter\<close>

lemma str_includes_sublist: "str_includes s t \<longleftrightarrow> sublist t s"
  by (induction s) (simp_all add: sublist_Cons_right)

lemma sublist_map_iff:
  "sublist (map f q) (map f n) \<longleftrightarrow> (\<exists>u. sublist u n \<and> map f u = map f q)"
proof
  assume "sublist (map f q) (map f n)"
  then obtain ps ss where "map f n = ps @ map f q @ ss"
    by (auto simp: sublist_def)
  then obtain a r where 1: "n = a @ r" and 2: "map f q @ ss = map f r"
    unfolding map_eq_append_conv by blast
  from 2 [symmetric] obtain b c where 3: "r = b @ c" and 4: "map f q = map f b"
    unfolding map_eq_append_conv by blast
  from 1 3 4 have "n = a @ b @ c" "map f b = map f q" by simp_all
  then show "\<exists>u. sublist u n \<and> map f u = map f q"
    by (auto simp: sublist_def)
next
  assume "\<exists>u. sublist u n \<and> map f u = map f q"
  then obtain u where "sublist u n" "map f u = map f q" by blast
  then show "sublist (map f q) (map f n)"
    by (auto simp: sublist_def) (metis map_append)
qed

lemma map_eq_list_all2: "map f u = map f q \<longleftrightarrow> list_all2 (\<lambda>c d. f c = f d) u q"
proof (induction u arbitrary: q)
  case Nil
  then show ?case by simp
next
  case (Cons c u)
  then show ?case by (cases q) simp_all
qed

text \<open>A table of capitals and small forms folds two characters to one exactly
  when they are equal or one is the capital of the other.\<close>

lemma zip_snd_inj:
  assumes "distinct ls" and "(a, l) \<in> set (zip us ls)" and "(b, l) \<in> set (zip us ls)"
  shows "a = b"
proof -
  from assms(2) obtain i where i: "i < length us" "i < length ls" "us ! i = a" "ls ! i = l"
    by (auto simp: in_set_zip)
  from assms(3) obtain j where j: "j < length us" "j < length ls" "us ! j = b" "ls ! j = l"
    by (auto simp: in_set_zip)
  from i(4) j(4) have "ls ! i = ls ! j" by simp
  with nth_eq_iff_index_eq [OF assms(1) i(2) j(2)] have "i = j" by simp
  with i(3) j(3) show ?thesis by simp
qed

lemma fold_table:
  assumes d: "distinct us" and d': "distinct ls" and l: "length us = length ls"
    and x: "set us \<inter> set ls = {}"
  shows "((case map_of (zip us ls) c of Some l \<Rightarrow> l | None \<Rightarrow> c)
          = (case map_of (zip us ls) e of Some l \<Rightarrow> l | None \<Rightarrow> e))
     \<longleftrightarrow> (c = e \<or> (c, e) \<in> set (zip us ls) \<or> (e, c) \<in> set (zip us ls))"
proof -
  have dz: "distinct (map fst (zip us ls))" using d l by simp
  have some: "\<And>a b. map_of (zip us ls) a = Some b \<longleftrightarrow> (a, b) \<in> set (zip us ls)"
    using dz by (simp add: map_of_eq_Some_iff)
  have fst_in: "\<And>a b. (a, b) \<in> set (zip us ls) \<Longrightarrow> a \<in> set us"
    by (rule set_zip_leftD)
  have snd_in: "\<And>a b. (a, b) \<in> set (zip us ls) \<Longrightarrow> b \<in> set ls"
    by (rule set_zip_rightD)
  have none: "\<And>b. b \<in> set ls \<Longrightarrow> map_of (zip us ls) b = None"
  proof -
    fix b assume "b \<in> set ls"
    with x have "b \<notin> set us" by blast
    then have "b \<notin> fst ` set (zip us ls)" using fst_in by force
    then show "map_of (zip us ls) b = None" by (simp add: map_of_eq_None_iff)
  qed
  show ?thesis
  proof (cases "map_of (zip us ls) c")
    case None
    note cN = None
    show ?thesis
    proof (cases "map_of (zip us ls) e")
      case None
      have "(c, e) \<notin> set (zip us ls)" using cN some [of c e] by simp
      moreover have "(e, c) \<notin> set (zip us ls)" using None some [of e c] by simp
      ultimately show ?thesis using cN None by simp
    next
      case (Some m)
      then have m: "(e, m) \<in> set (zip us ls)" by (simp add: some)
      have "(c, e) \<notin> set (zip us ls)" using cN some [of c e] by simp
      moreover have "(e, c) \<in> set (zip us ls) \<longleftrightarrow> c = m"
        using Some some [of e c] by auto
      moreover have "c = e \<Longrightarrow> False" using cN Some by simp
      ultimately show ?thesis using cN Some by auto
    qed
  next
    case (Some k)
    note cS = Some
    then have k: "(c, k) \<in> set (zip us ls)" by (simp add: some)
    show ?thesis
    proof (cases "map_of (zip us ls) e")
      case None
      have "(e, c) \<notin> set (zip us ls)" using None some [of e c] by simp
      moreover have "(c, e) \<in> set (zip us ls) \<longleftrightarrow> e = k"
        using cS some [of c e] by auto
      moreover have "c = e \<Longrightarrow> False" using cS None by simp
      ultimately show ?thesis using cS None by auto
    next
      case (Some m)
      then have m: "(e, m) \<in> set (zip us ls)" by (simp add: some)
      have 1: "k = m \<Longrightarrow> c = e" using zip_snd_inj [OF d' k] m by simp
      have 2: "c = e \<Longrightarrow> k = m" using cS Some by simp
      have "(c, e) \<notin> set (zip us ls)"
      proof
        assume "(c, e) \<in> set (zip us ls)"
        then have "e \<in> set ls" by (rule snd_in)
        from none [OF this] Some show False by simp
      qed
      moreover have "(e, c) \<notin> set (zip us ls)"
      proof
        assume "(e, c) \<in> set (zip us ls)"
        then have "c \<in> set ls" by (rule snd_in)
        from none [OF this] cS show False by simp
      qed
      ultimately show ?thesis using cS Some 1 2 by auto
    qed
  qed
qed

lemma letters_distinct:
  "distinct (upperCase @ upperLatin1)" "distinct (lowerCase @ lowerLatin1)"
  "length (upperCase @ upperLatin1) = length (lowerCase @ lowerLatin1)"
  "set (upperCase @ upperLatin1) \<inter> set (lowerCase @ lowerLatin1) = {}"
  by (simp_all add: upperCase_def upperLatin1_def lowerCase_def lowerLatin1_def)

lemma toLowerCase_eq_iff:
  "toLowerCase u = toLowerCase q \<longleftrightarrow> list_all2 sameLetter u q"
proof -
  have "(\<lambda>c d. (case map_of (zip (upperCase @ upperLatin1) (lowerCase @ lowerLatin1)) c of
                   Some l \<Rightarrow> l | None \<Rightarrow> c)
              = (case map_of (zip (upperCase @ upperLatin1) (lowerCase @ lowerLatin1)) d of
                   Some l \<Rightarrow> l | None \<Rightarrow> d)) = sameLetter"
    unfolding sameLetter_def fold_table [OF letters_distinct] ..
  then show ?thesis
    unfolding toLowerCase_def map_eq_list_all2 by simp
qed

lemma str_includes_containsIgnoringCase:
  "str_includes (toLowerCase n) (toLowerCase q) \<longleftrightarrow> containsIgnoringCase n q"
proof -
  have "str_includes (toLowerCase n) (toLowerCase q)
      \<longleftrightarrow> (\<exists>u. sublist u n \<and> toLowerCase u = toLowerCase q)"
    unfolding str_includes_sublist toLowerCase_def by (rule sublist_map_iff)
  then show ?thesis unfolding toLowerCase_eq_iff containsIgnoringCase_def .
qed

lemma str_includes_Nil: "str_includes s []"
  by (simp add: str_includes_sublist)

lemma currentFeatures_searchQuery:
  "currentFeatures (st\<lparr>searchQuery := q\<rparr>) = currentFeatures st"
  by (simp add: currentFeatures_def)

lemma filteredLocations_example:
  "filteredLocations ((state worldReady)\<lparr>searchQuery := ''aN''\<rparr>) = [''France'', ''Uganda'']"
  by (simp add: filteredLocations_def worldReady_eq currentFeatures_def toLowerCase_def
      upperCase_def lowerCase_def upperLatin1_def lowerLatin1_def)

lemma filteredLocations_world:
  "filteredLocations (state worldReady) = [''Chad'', ''France'', ''USA'', ''Uganda'']"
  by (simp add: filteredLocations_def worldReady_eq currentFeatures_def toLowerCase_def)

text \<open>
  C5 (as amended).  For every search query and every active collection whose
  regions all have names, as the loaders ensure, the displayed list holds
  exactly the region names that contain the query as a case-insensitive
  substring, each as often as the collection has it, in the order of the code
  units, in which every capital letter comes before every small one; for the
  empty query it is the list of all names of the collection in that order.
\<close>

theorem search_filter:
  assumes "list_all (\<lambda>d. name d \<noteq> []) (currentFeatures st)"
  shows "set (filteredLocations st) =
           {n \<in> set (map name (currentFeatures st)). containsIgnoringCase n (searchQuery st)}
     \<and> mset (filteredLocations st) =
           filter_mset (\<lambda>n. containsIgnoringCase n (searchQuery st))
             (mset (map name (currentFeatures st)))
     \<and> sorted (filteredLocations st)
     \<and> filteredLocations (st\<lparr>searchQuery := []\<rparr>) = sort (map name (currentFeatures st))"
proof -
  from assms have all: "filter (\<lambda>n. n \<noteq> []) (map name (currentFeatures st))
      = map name (currentFeatures st)"
    by (simp add: filter_id_conv list_all_iff)
  have m: "mset (filteredLocations st) =
           filter_mset (\<lambda>n. containsIgnoringCase n (searchQuery st))
             (mset (map name (currentFeatures st)))"
    by (simp add: filteredLocations_def all str_includes_containsIgnoringCase)
  have s: "set (filteredLocations st) =
           {n \<in> set (map name (currentFeatures st)). containsIgnoringCase n (searchQuery st)}"
    by (auto simp: filteredLocations_def all str_includes_containsIgnoringCase)
  have e: "filteredLocations (st\<lparr>searchQuery := []\<rparr>) = sort (map name (currentFeatures st))"
    by (simp add: filteredLocations_def currentFeatures_searchQuery all toLowerCase_def
        str_includes_Nil)
  show ?thesis using m s e by (simp add: filteredLocations_def)
qed

theorem search_filter_witness:
  "list_all (\<lambda>d. name d \<noteq> []) (currentFeatures ((state worldReady)\<lparr>searchQuery := ''aN''\<rparr>))
   \<and> {n \<in> {''Uganda'', ''France'', ''USA'', ''Chad''}. containsIgnoringCase n ''aN''}
       = {''France'', ''Uganda''}
   \<and> filteredLocations ((state worldReady)\<lparr>searchQuery := ''aN''\<rparr>) = [''France'', ''Uganda'']
   \<and> filteredLocations ((state worldReady)\<lparr>searchQuery := []\<rparr>)
       = [''Chad'', ''France'', ''USA'', ''Uganda'']"
proof -
  have h: "list_all (\<lambda>d. name d \<noteq> []) (currentFeatures ((state worldReady)\<lparr>searchQuery := ''aN''\<rparr>))"
    by (simp add: worldReady_eq currentFeatures_def)
  have c: "map name (currentFeatures ((state worldReady)\<lparr>searchQuery := ''aN''\<rparr>))
      = [''Uganda'', ''France'', ''USA'', ''Chad'']"
    by (simp add: worldReady_eq currentFeatures_def)
  note th = search_filter [OF h]
  from th have "set (filteredLocations ((state worldReady)\<lparr>searchQuery := ''aN''\<rparr>)) =
      {n \<in> set (map name (currentFeatures ((state worldReady)\<lparr>searchQuery := ''aN''\<rparr>))).
         containsIgnoringCase n ''aN''}"
    by simp
  then have 1: "{n \<in> {''Uganda'', ''France'', ''USA'', ''Chad''}. containsIgnoringCase n ''aN''}
       = {''France'', ''Uganda''}"
    unfolding c filteredLocations_example by simp
  from th have "filteredLocations ((state worldReady)\<lparr>searchQuery := ''aN'', searchQuery := []\<rparr>)
      = sort (map name (currentFeatures ((state worldReady)\<lparr>searchQuery := ''aN''\<rparr>)))"
    by (elim conjE)
  then have 2: "filteredLocations ((state worldReady)\<lparr>searchQuery := []\<rparr>)
       = [''Chad'', ''France'', ''USA'', ''Uganda'']"
    unfolding c by simp
  from h 1 filteredLocations_example 2 show ?thesis by (intro conjI)
qed

text \<open>C5 as stated fails: the list is not in alphabetical order.  In the world
  of the examples USA is listed before Uganda, since the code unit of \<open>S\<close> is
  below that of \<open>g\<close>.\<close>

lemma alphabetPosition_examples:
  "alphabetPosition CHR ''g'' = Some 6" "alphabetPosition CHR ''S'' = Some 18"
  by (simp_all add: alphabetPosition_def upperCase_def lowerCase_def upt_rec)

lemma Uganda_before_USA: "alphabeticallyBefore ''Uganda'' ''USA''"
proof -
  have "''Uganda'' = ''U'' @ CHR ''g'' # ''anda'' \<and> ''USA'' = ''U'' @ CHR ''S'' # ''A''
      \<and> list_all2 sameLetter ''U'' ''U''
      \<and> alphabetPosition CHR ''g'' = Some 6 \<and> alphabetPosition CHR ''S'' = Some 18
      \<and> (6::nat) < 18"
    by (simp add: alphabetPosition_examples sameLetter_def)
  then show ?thesis unfolding alphabeticallyBefore_def by blast
qed

theorem search_filter_counterexample:
  "filteredLocations (state worldReady) = [''Chad'', ''France'', ''USA'', ''Uganda'']
   \<and> alphabeticallyBefore ''Uganda'' ''USA''
   \<and> \<not> alphabetical (filteredLocations (state worldReady))"
  unfolding filteredLocations_world
  by (simp add: alphabetical_def Uganda_before_USA)

subsection \<open>Every loaded region has a name\<close>

text \<open>The loaders keep only named regions, so the hypothesis of C5 holds in
  every state that a run reaches from the first render.\<close>

lemma loadWorldData_try_names:
  "loadWorldData_try resp = Inr fs \<Longrightarrow> list_all (\<lambda>d. name d \<noteq> []) fs"
  by (auto simp: loadWorldData_try_def list_all_iff
      split: response.splits option.splits if_splits)

lemma loadUSAData_try_names:
  "loadUSAData_try resp = Inr fs \<Longrightarrow> list_all (\<lambda>d. name d \<noteq> []) fs"
  by (auto simp: loadUSAData_try_def list_all_iff Let_def
      split: response.splits sum.splits)

lemma initialize_namesTruthy: "namesTruthy st \<Longrightarrow> namesTruthy (initialize resp st)"
  using loadWorldData_try_names [of resp]
  by (cases "loadWorldData_try resp") (simp_all add: initialize_cases namesTruthy_def)

lemma resume_namesTruthy:
  assumes "namesTruthy st" and "handleScopeSelection_resume scope resp st = Inr st'"
  shows "namesTruthy st'"
proof (cases "loadUSAData_try resp")
  case (Inl e)
  with assms show ?thesis
    by (auto simp: handleScopeSelection_resume_def loadUSAData_body_def showNotification_def
        namesTruthy_def)
next
  case (Inr fs)
  with assms loadUSAData_try_names [OF Inr] show ?thesis
    by (auto simp: handleScopeSelection_resume_def loadUSAData_body_def namesTruthy_def)
qed

lemma begin_namesTruthy:
  assumes "namesTruthy (state s)"
  shows "namesTruthy (state (step (SelectScope scope) s))"
proof (cases "scope = currentScope (state s)")
  case True
  then show ?thesis using assms by (simp add: handleScopeSelection_begin_same)
next
  case False
  show ?thesis
    unfolding step.simps handleScopeSelection_begin_cases [OF False]
    using assms by (simp add: namesTruthy_def)
qed

lemma step_namesTruthy:
  assumes "namesTruthy (state s)"
  shows "namesTruthy (state (step a s))"
proof (cases a)
  case (Toggle n)
  with assms show ?thesis by (simp add: namesTruthy_def handleLocationToggle_def)
next
  case SelectAll
  with assms show ?thesis by (simp add: namesTruthy_def selectAllClick_def Let_def)
next
  case (SelectScope scope)
  with assms show ?thesis by (simp only: begin_namesTruthy)
next
  case (Response i resp)
  show ?thesis
  proof (cases "i < length (suspended s)")
    case True
    from step_Response [OF True, of resp] obtain st'
      where r: "handleScopeSelection_resume (suspended s ! i) resp (state s) = Inr st'"
        and e: "step (Response i resp) s =
           s\<lparr>state := st', suspended := take i (suspended s) @ drop (Suc i) (suspended s)\<rparr>"
      by auto
    from resume_namesTruthy [OF assms r] show ?thesis unfolding Response e by simp
  next
    case False
    with assms Response show ?thesis by simp
  qed
next
  case (WorldLoaded resp)
  with assms show ?thesis by (simp add: initialize_namesTruthy)
qed

lemma run_namesTruthy: "namesTruthy (state s) \<Longrightarrow> namesTruthy (state (run as s))"
proof (induction as arbitrary: s)
  case Nil
  then show ?case by simp
next
  case (Cons a as)
  from step_namesTruthy [OF Cons.prems] have "namesTruthy (state (step a s))" .
  from Cons.IH [OF this] show ?case by simp
qed

lemma namesTruthy_initialState: "namesTruthy initialState"
  by (simp add: namesTruthy_def initialState_def)

lemma namesTruthy_currentFeatures:
  "namesTruthy st \<Longrightarrow> list_all (\<lambda>d. name d \<noteq> []) (currentFeatures st)"
  by (simp add: namesTruthy_def currentFeatures_def)

subsection \<open>Fit to viewport\<close>

text \<open>The arithmetic of the examples, and three laws that it shares with the
  doubles: 1 times a number is the number, only 1 is strictly equal to 1, and 0
  plus a number is the number, or 0 when the number is strictly equal to 0.\<close>

lemma exact_simps:
  "js_num exact i = Fin (of_int i)" "js_inf exact = PosInf" "js_neg_inf exact = NegInf"
  "js_eq exact = jeq" "js_add exact = jadd" "js_sub exact = jsub" "js_mul exact = jmul"
  "js_div exact = jdiv" "js_min exact = jmin"
  by (simp_all add: exact_def)

lemma exact_laws:
  "js_mul exact (js_num exact 1) v = v"
  "js_eq exact v (js_num exact 1) = (v = js_num exact 1)"
  "js_add exact (js_num exact 0) v = (if js_eq exact v (js_num exact 0) then js_num exact 0 else v)"
  by (cases v; simp add: exact_simps jeq_def; fail)+

text \<open>
  C4 (as amended).  For every arithmetic with the three laws, every viewport of
  non-zero width \<open>w\<close> and height \<open>h\<close> and every non-empty collection, the
  projection and the path generator being there: when none of the four tests of
  the code holds of the bounds (\<open>x0\<close> or \<open>y0\<close> is \<^verbatim>\<open>Infinity\<close>, \<open>x1\<close> or \<open>y1\<close> is
  \<^verbatim>\<open>-Infinity\<close>), the stored transform has the scale
  \<open>min(w/(x1-x0), h/(y1-y0))\<close> and the translation
  \<open>((w - scale*(x0+x1))/2, (h - scale*(y0+y1))/2)\<close> as the arithmetic computes
  them, finite or not, a zero translation being stored as 0; when one of the
  four tests holds, the stored transform is the identity.  For an empty
  collection the function returns at once and leaves the stored transform as it
  was.
\<close>

theorem fit_transform:
  assumes one: "\<And>v. js_mul A (js_num A 1) v = v"
    and eq1: "\<And>v. js_eq A v (js_num A 1) = (v = js_num A 1)"
    and zero: "\<And>v. js_add A (js_num A 0) v
                  = (if js_eq A v (js_num A 0) then js_num A 0 else v)"
    and fs: "fs \<noteq> []" and dims: "width \<noteq> 0" "height \<noteq> 0"
    and pass: "\<not> js_eq A x0 (js_inf A)" "\<not> js_eq A x1 (js_neg_inf A)"
      "\<not> js_eq A y0 (js_inf A)" "\<not> js_eq A y1 (js_neg_inf A)"
    and hit: "js_eq A a0 (js_inf A) \<or> js_eq A a1 (js_neg_inf A)
      \<or> js_eq A b0 (js_inf A) \<or> js_eq A b1 (js_neg_inf A)"
  shows "updateSvgDimensionsAndFit A True True fs (width, height) ((x0, y0), (x1, y1)) T =
      (let s = js_min A (js_div A (js_num A width) (js_sub A x1 x0))
                        (js_div A (js_num A height) (js_sub A y1 y0));
           translateX = js_div A (js_sub A (js_num A width) (js_mul A s (js_add A x0 x1)))
                          (js_num A 2);
           translateY = js_div A (js_sub A (js_num A height) (js_mul A s (js_add A y0 y1)))
                          (js_num A 2)
       in \<lparr>t_k = s,
           t_x = (if js_eq A translateX (js_num A 0) then js_num A 0 else translateX),
           t_y = (if js_eq A translateY (js_num A 0) then js_num A 0 else translateY)\<rparr>)
     \<and> updateSvgDimensionsAndFit A True True fs (width, height) ((a0, b0), (a1, b1)) T
         = zoomIdentity A
     \<and> updateSvgDimensionsAndFit A hasProjection hasPath [] (width, height) bounds T = T"
proof -
  have st: "\<And>u v s. scale A (translate A (zoomIdentity A) u v) s =
      \<lparr>t_k = s, t_x = (if js_eq A u (js_num A 0) then js_num A 0 else u),
       t_y = (if js_eq A v (js_num A 0) then js_num A 0 else v)\<rparr>"
    by (simp add: scale_def translate_def zoomIdentity_def one eq1 zero)
  have 1: "updateSvgDimensionsAndFit A True True fs (width, height) ((x0, y0), (x1, y1)) T =
      (let s = js_min A (js_div A (js_num A width) (js_sub A x1 x0))
                        (js_div A (js_num A height) (js_sub A y1 y0));
           translateX = js_div A (js_sub A (js_num A width) (js_mul A s (js_add A x0 x1)))
                          (js_num A 2);
           translateY = js_div A (js_sub A (js_num A height) (js_mul A s (js_add A y0 y1)))
                          (js_num A 2)
       in \<lparr>t_k = s,
           t_x = (if js_eq A translateX (js_num A 0) then js_num A 0 else translateX),
           t_y = (if js_eq A translateY (js_num A 0) then js_num A 0 else translateY)\<rparr>)"
    using fs dims pass by (simp add: updateSvgDimensionsAndFit_def Let_def st)
  have 2: "updateSvgDimensionsAndFit A True True fs (width, height) ((a0, b0), (a1, b1)) T
         = zoomIdentity A"
    using fs dims hit by (simp add: updateSvgDimensionsAndFit_def)
  have 3: "updateSvgDimensionsAndFit A hasProjection hasPath [] (width, height) bounds T = T"
    by (cases bounds) (simp add: updateSvgDimensionsAndFit_def split: prod.split)
  from 1 2 3 show ?thesis by (intro conjI)
qed

theorem fit_transform_witness:
  "(\<forall>v. js_mul exact (js_num exact 1) v = v)
   \<and> (\<forall>v. js_eq exact v (js_num exact 1) = (v = js_num exact 1))
   \<and> (\<forall>v. js_add exact (js_num exact 0) v
         = (if js_eq exact v (js_num exact 0) then js_num exact 0 else v))
   \<and> france \<noteq> []
   \<and> \<not> js_eq exact (Fin 0) (js_inf exact) \<and> \<not> js_eq exact (Fin 400) (js_neg_inf exact)
   \<and> \<not> js_eq exact (Fin 200) (js_neg_inf exact)
   \<and> js_eq exact PosInf (js_inf exact)
   \<and> updateSvgDimensionsAndFit exact True True france (800, 600)
        ((Fin 0, Fin 0), (Fin 400, Fin 200)) (zoomIdentity exact)
      = \<lparr>t_k = Fin 2, t_x = Fin 0, t_y = Fin 100\<rparr>
   \<and> updateSvgDimensionsAndFit exact True True france (800, 600)
        ((PosInf, PosInf), (NegInf, NegInf)) (zoomIdentity exact)
      = \<lparr>t_k = Fin 1, t_x = Fin 0, t_y = Fin 0\<rparr>
   \<and> updateSvgDimensionsAndFit exact True True [] (800, 600)
        ((PosInf, PosInf), (NegInf, NegInf)) (zoomIdentity exact)
      = \<lparr>t_k = Fin 1, t_x = Fin 0, t_y = Fin 0\<rparr>"
proof -
  have f: "france \<noteq> []" by (simp add: france_def)
  have w: "(800::int) \<noteq> 0" "(600::int) \<noteq> 0" by simp_all
  have p: "\<not> js_eq exact (Fin 0) (js_inf exact)" "\<not> js_eq exact (Fin 400) (js_neg_inf exact)"
    "\<not> js_eq exact (Fin 0) (js_inf exact)" "\<not> js_eq exact (Fin 200) (js_neg_inf exact)"
    by (simp_all add: exact_simps jeq_def)
  have h: "js_eq exact PosInf (js_inf exact) \<or> js_eq exact NegInf (js_neg_inf exact)
      \<or> js_eq exact PosInf (js_inf exact) \<or> js_eq exact NegInf (js_neg_inf exact)"
    by (simp add: exact_simps jeq_def)
  have h1: "js_eq exact PosInf (js_inf exact)"
    by (simp add: exact_simps jeq_def)
  note th = fit_transform [of exact, OF exact_laws f w p h,
      where T = "zoomIdentity exact" and bounds = "((PosInf, PosInf), (NegInf, NegInf))"]
  from th have 1: "updateSvgDimensionsAndFit exact True True france (800, 600)
        ((Fin 0, Fin 0), (Fin 400, Fin 200)) (zoomIdentity exact)
      = \<lparr>t_k = Fin 2, t_x = Fin 0, t_y = Fin 100\<rparr>"
    by (simp add: exact_simps jeq_def jsub_def Let_def)
  from th have 2: "updateSvgDimensionsAndFit exact True True france (800, 600)
        ((PosInf, PosInf), (NegInf, NegInf)) (zoomIdentity exact)
      = \<lparr>t_k = Fin 1, t_x = Fin 0, t_y = Fin 0\<rparr>"
    by (simp add: zoomIdentity_def exact_simps)
  from th have 3: "updateSvgDimensionsAndFit exact True True [] (800, 600)
        ((PosInf, PosInf), (NegInf, NegInf)) (zoomIdentity exact)
      = \<lparr>t_k = Fin 1, t_x = Fin 0, t_y = Fin 0\<rparr>"
    by (simp add: zoomIdentity_def exact_simps)
  from exact_laws f p(1,2,4) h1 1 2 3 show ?thesis by (intro conjI allI)
qed

text \<open>C4 as stated fails.  For the empty collection the function returns at its
  first guard and the transform of an earlier fit stays stored, which is not the
  identity.  Bounds that are infinite in another position than the four that
  the code tests give the translation \<^verbatim>\<open>NaN\<close>.  Finite bounds of no extent
  give an infinite scale and translation.\<close>

theorem fit_transform_counterexample:
  "updateSvgDimensionsAndFit exact True True [] (800, 600)
        ((PosInf, PosInf), (NegInf, NegInf)) \<lparr>t_k = Fin 2, t_x = Fin 0, t_y = Fin 100\<rparr>
      = \<lparr>t_k = Fin 2, t_x = Fin 0, t_y = Fin 100\<rparr>
   \<and> zoomIdentity exact = \<lparr>t_k = Fin 1, t_x = Fin 0, t_y = Fin 0\<rparr>
   \<and> updateSvgDimensionsAndFit exact True True france (800, 600)
        ((Fin 0, Fin 0), (PosInf, Fin 200)) (zoomIdentity exact)
      = \<lparr>t_k = Fin 0, t_x = NaN, t_y = Fin 300\<rparr>
   \<and> updateSvgDimensionsAndFit exact True True france (800, 600)
        ((Fin 100, Fin 50), (Fin 100, Fin 50)) (zoomIdentity exact)
      = \<lparr>t_k = PosInf, t_x = NegInf, t_y = NegInf\<rparr>"
  by (simp add: updateSvgDimensionsAndFit_def france_def zoomIdentity_def jsub_def
      scale_def translate_def exact_simps jeq_def)

subsection \<open>Normalized names\<close>

text \<open>
  C10.  The normalization of names that addresses a region's shape is not
  injective: two distinct names have the same normalized identifier, and a toggle
  of the second region flips the shape of the first.
\<close>

theorem normalizeName_not_injective:
  "''Timor Leste'' \<noteq> ''Timor-Leste''
   \<and> normalizeName ''Timor Leste'' = normalizeName ''Timor-Leste''
   \<and> (\<exists>a b. a \<noteq> b \<and> normalizeName a = normalizeName b)
   \<and> toggleHighlight ''Timor-Leste''
        (renderPaths [\<lparr>name = ''Timor Leste''\<rparr>, \<lparr>name = ''Timor-Leste''\<rparr>] {})
      = [\<lparr>dataName = ''Timor-Leste'', highlight = True, datum = ''Timor Leste''\<rparr>,
         \<lparr>dataName = ''Timor-Leste'', highlight = False, datum = ''Timor-Leste''\<rparr>]"
proof -
  have n: "normalizeName ''Timor Leste'' = ''Timor-Leste''"
    "normalizeName ''Timor-Leste'' = ''Timor-Leste''"
    by (simp_all add: normalizeName_def lowerCase_def upperCase_def decimalDigits_def
        whiteSpace_def)
  have d: "''Timor Leste'' \<noteq> ''Timor-Leste''" by simp
  from n d have "\<exists>a b. a \<noteq> b \<and> normalizeName a = normalizeName b" by metis
  with n d show ?thesis
    by (simp add: toggleHighlight_def renderPaths_def)
qed


subsection \<open>The displayed percentage\<close>

text \<open>\<open>tenths\<close> is the integer nearest to ten times the number, the larger one
  on a tie.\<close>

lemma tenths_nearest:
  assumes "0 \<le> v"
  shows "v * 10 - 1 / 2 < of_nat (tenths v) \<and> of_nat (tenths v) \<le> v * 10 + 1 / 2"
proof -
  from assms have nn: "0 \<le> \<lfloor>v * 10 + 1 / 2\<rfloor>" by simp
  then have "of_nat (tenths v) = (of_int \<lfloor>v * 10 + 1 / 2\<rfloor> :: rat)"
    by (simp add: tenths_def)
  moreover have "of_int \<lfloor>v * 10 + 1 / 2\<rfloor> \<le> v * 10 + 1 / 2"
    by (rule of_int_floor_le)
  moreover have "v * 10 + 1 / 2 < of_int \<lfloor>v * 10 + 1 / 2\<rfloor> + 1"
    by linarith
  ultimately show ?thesis by linarith
qed

text \<open>In the two-scope file, and for the world and USA scopes of the four-scope
  revision, the percentage is computed from the active collection.\<close>

lemma percentage_two_scopes:
  "percentage st =
     (if length (currentFeatures st) = 0 then ''0.0''
      else toFixed1 (of_nat (card (activeLocations st)) / of_nat (length (currentFeatures st)) * 100))"
  by (simp add: percentage_def totalReference_def locationsCount_def currentFeatures_def)

lemma percentage4_world_usa:
  "currentScope4 st = World4 \<or> currentScope4 st = Usa4 \<Longrightarrow>
   percentage4 st =
     (if length (currentFeatures4 st) = 0 then ''0.0''
      else toFixed1 (of_nat (card (activeLocations4 st)) / of_nat (length (currentFeatures4 st)) * 100))"
  by (auto simp: percentage4_def totalReference4_def locationsCount4_def currentFeatures4_def)

lemma worldReady_percentage:
  "percentage ((state worldReady)\<lparr>activeLocations := {''Chad''}\<rparr>) = ''25.0''"
  unfolding percentage_def totalReference_def locationsCount_def worldReady_eq
  by (simp add: card_insert_if) code_simp

lemma twoEuropeans_try:
  "loadEuropeData_try twoEuropeans = Inr [\<lparr>name = ''France''\<rparr>, \<lparr>name = ''Spain''\<rparr>]"
  by (simp add: loadEuropeData_try_def twoEuropeans_def europeName_def)

lemma inEurope_eq:
  "inEurope = \<lparr>app = \<lparr>currentScope4 = Europe4, activeLocations4 = {''Spain''}, isLoading4 = False,
       worldCountryFeatures4 = [\<lparr>name = ''France''\<rparr>, \<lparr>name = ''Chad''\<rparr>],
       usStateFeatures4 = [],
       europeCountryFeatures4 = [\<lparr>name = ''France''\<rparr>, \<lparr>name = ''Spain''\<rparr>],
       chinaProvinceFeatures4 = [], notifications4 = []\<rparr>,
     pending = []\<rparr>"
  by (simp add: inEurope_def worldReady4_def startsFetch_def resume_def loadEuropeData_body_def
      twoEuropeans_try finish_def toggle_def)

text \<open>
  C1.  For every active scope the displayed percentage is the selection count
  divided by the number of regions of the active scope's collection, times 100,
  rounded to one decimal place.  The four-scope revision breaks it: with Europe
  active, two European countries loaded and one of them selected, it displays
  \<open>0.0\<close> where the claim gives \<open>50.0\<close>, because \<open>totalReference\<close> reads the USA
  collection for every scope but the world.
\<close>

theorem percentage_ignores_europe:
  "currentScope4 (app inEurope) = Europe4
   \<and> card (activeLocations4 (app inEurope)) = 1
   \<and> length (currentFeatures4 (app inEurope)) = 2
   \<and> percentage4 (app inEurope) = ''0.0''
   \<and> toFixed1 (of_nat (card (activeLocations4 (app inEurope)))
        / of_nat (length (currentFeatures4 (app inEurope))) * 100) = ''50.0''"
proof -
  have "toFixed1 (of_nat 1 / of_nat 2 * 100) = ''50.0''" by code_simp
  then show ?thesis
    by (simp add: inEurope_eq currentFeatures4_def percentage4_def totalReference4_def)
qed

subsection \<open>Responses that arrive late\<close>

text \<open>The request of a switch empties the store at once, whether or not a fetch
  is then in flight; the store is not touched again when the switch completes.\<close>

lemma select_clears:
  "scope \<noteq> currentScope4 (app sys) \<Longrightarrow> activeLocations4 (app (react (Select scope) sys)) = {}"
  by (simp add: Let_def finish_def)

lemma resume_Inr:
  "resume scope f st = Some r \<Longrightarrow> \<exists>st'. r = Inr st'"
  by (auto simp: resume_def loadUSAData4_body_def loadEuropeData_body_def loadChinaData_body_def
      split: Scope4.splits fetched.splits sum.splits)

lemma resume_delivers:
  "resume scope f st = Some (Inr st') \<Longrightarrow>
     currentFeatures4 (finish scope st') = delivered f
     \<and> currentScope4 (finish scope st') = scope
     \<and> activeLocations4 (finish scope st') = activeLocations4 st"
  by (auto simp: resume_def loadUSAData4_body_def loadEuropeData_body_def loadChinaData_body_def
      finish_def currentFeatures4_def delivered_def showNotification4_def
      split: Scope4.splits fetched.splits sum.splits)

lemma europeActive_eq:
  "europeActive = \<lparr>app = \<lparr>currentScope4 = Europe4, activeLocations4 = {''Spain''},
       isLoading4 = False,
       worldCountryFeatures4 = [\<lparr>name = ''France''\<rparr>, \<lparr>name = ''Chad''\<rparr>],
       usStateFeatures4 = [],
       europeCountryFeatures4 = [\<lparr>name = ''France''\<rparr>, \<lparr>name = ''Spain''\<rparr>],
       chinaProvinceFeatures4 = [], notifications4 = []\<rparr>,
     pending = [Usa4]\<rparr>"
  by (simp add: europeActive_def worldReady4_def startsFetch_def resume_def
      loadEuropeData_body_def twoEuropeans_try finish_def toggle_def)

text \<open>
  C9 (as amended).  A response is committed without any comparison with the
  active scope: whenever the fetch of a suspended scope switch delivers, the
  loader stores what it delivered in the collection of the originating scope
  (nothing, when the load failed) and the handler makes the originating scope the
  active one, so that this collection is the active collection, whatever scope
  was active before; the Selection Store is left as it is.
\<close>

theorem response_committed:
  assumes "i < length (pending sys)" and "resume (pending sys ! i) f (app sys) \<noteq> None"
  shows "currentScope4 (app (react (Resolve i f) sys)) = pending sys ! i
     \<and> currentFeatures4 (app (react (Resolve i f) sys)) = delivered f
     \<and> activeLocations4 (app (react (Resolve i f) sys)) = activeLocations4 (app sys)"
proof -
  from assms(2) obtain r where r: "resume (pending sys ! i) f (app sys) = Some r" by blast
  then obtain st' where "r = Inr st'" using resume_Inr by blast
  with r have s: "resume (pending sys ! i) f (app sys) = Some (Inr st')" by simp
  from resume_delivers [OF s] assms(1) s show ?thesis by simp
qed

theorem response_committed_witness:
  "0 < length (pending europeActive)
   \<and> resume (pending europeActive ! 0) (UsaFetched twoStates) (app europeActive) \<noteq> None
   \<and> currentScope4 (app (react (Resolve 0 (UsaFetched twoStates)) europeActive)) = Usa4
   \<and> currentFeatures4 (app (react (Resolve 0 (UsaFetched twoStates)) europeActive))
        = [\<lparr>name = ''Texas''\<rparr>, \<lparr>name = ''Ohio''\<rparr>]"
proof -
  have a: "0 < length (pending europeActive)" by (simp add: europeActive_eq)
  have b: "resume (pending europeActive ! 0) (UsaFetched twoStates) (app europeActive) \<noteq> None"
    by (simp add: europeActive_eq resume_def)
  have d: "delivered (UsaFetched twoStates) = [\<lparr>name = ''Texas''\<rparr>, \<lparr>name = ''Ohio''\<rparr>]"
    by (simp add: delivered_def twoStates_try)
  have p: "pending europeActive ! 0 = Usa4" by (simp add: europeActive_eq)
  from response_committed [OF a b] a b show ?thesis by (simp add: d p)
qed

text \<open>C9 as stated fails: the user selects USA and then Europe, Europe loads and
  is active, a European country is selected; the USA response arrives, and the
  USA collection becomes the active one, with the European name still selected.\<close>

theorem stale_response_counterexample:
  "currentScope4 (app europeActive) = Europe4
   \<and> pending europeActive = [Usa4]
   \<and> currentScope4 (app (react (Resolve 0 (UsaFetched twoStates)) europeActive)) = Usa4
   \<and> currentFeatures4 (app (react (Resolve 0 (UsaFetched twoStates)) europeActive))
        = [\<lparr>name = ''Texas''\<rparr>, \<lparr>name = ''Ohio''\<rparr>]
   \<and> activeLocations4 (app (react (Resolve 0 (UsaFetched twoStates)) europeActive)) = {''Spain''}"
  by (simp add: europeActive_eq resume_def loadUSAData4_body_def twoStates_try finish_def
      currentFeatures4_def)

end
